theory Spec2Isabelle
  imports Complex_Main "HOL-Library.AList" "HOL-Library.Word"
begin

section \<open>Configuration\<close>

text \<open>The constants of class \<open>Config\<close> in \<open>server/python/main.py\<close>.\<close>

definition MAX_ROOMS :: nat where
  "MAX_ROOMS = 10000"

definition MAX_PEERS_PER_ROOM :: nat where
  "MAX_PEERS_PER_ROOM = 2"

definition ROOM_TIMEOUT :: real where
  "ROOM_TIMEOUT = 3600"

definition ROOM_CODE_LENGTH :: nat where
  "ROOM_CODE_LENGTH = 6"

definition MAX_FILE_SIZE :: int where
  "MAX_FILE_SIZE = 5 * 1024 * 1024 * 1024"

definition CHUNK_SIZE :: nat where
  "CHUNK_SIZE = 1024 * 1024"

definition RELAY_FILE_TTL :: real where
  "RELAY_FILE_TTL = 3600"

definition MAX_MESSAGES_PER_SECOND :: int where
  "MAX_MESSAGES_PER_SECOND = 100"

definition MAX_CONNECTIONS_PER_IP :: int where
  "MAX_CONNECTIONS_PER_IP = 10"

definition LZ4_COMPRESSION_LEVEL :: nat where
  "LZ4_COMPRESSION_LEVEL = 4"

definition MIN_COMPRESS_SIZE :: int where
  "MIN_COMPRESS_SIZE = 1024"

section \<open>Python values\<close>

text \<open>
  A Python \<open>dict\<close> keeps its keys in insertion order and the server iterates over its
  dictionaries, so a dictionary is an association list: \<open>d.get(k)\<close> is \<open>map_of d k\<close>,
  \<open>d[k] = v\<close> is \<open>AList.update k v d\<close> (it overwrites in place or appends),
  \<open>d.pop(k, None)\<close> and \<open>del d[k]\<close> are \<open>AList.delete k d\<close>, \<open>len(d)\<close> is
  \<open>length d\<close>.

  Timestamps (\<open>time.time()\<close>) are real numbers here; every operation that reads the clock
  takes the reading as its argument \<open>now\<close>. Strings are ASCII: \<open>upper\<close> and \<open>lower\<close>
  change the 26 letters and leave every other character alone.
\<close>

type_synonym ('k, 'v) dict = "('k \<times> 'v) list"

definition upper_char :: "char \<Rightarrow> char" where
  "upper_char c =
     (case map_of (zip ''abcdefghijklmnopqrstuvwxyz'' ''ABCDEFGHIJKLMNOPQRSTUVWXYZ'') c of
        Some u \<Rightarrow> u
      | None \<Rightarrow> c)"

definition lower_char :: "char \<Rightarrow> char" where
  "lower_char c =
     (case map_of (zip ''ABCDEFGHIJKLMNOPQRSTUVWXYZ'' ''abcdefghijklmnopqrstuvwxyz'') c of
        Some l \<Rightarrow> l
      | None \<Rightarrow> c)"

definition upper :: "string \<Rightarrow> string" where
  "upper s = map upper_char s"

definition lower :: "string \<Rightarrow> string" where
  "lower s = map lower_char s"

text \<open>
  A decoded JSON value (\<open>orjson.loads\<close>), and Python's truth value of one. The value
  \<open>None\<close> that \<open>dict.get\<close> gives for a missing key is \<open>JNull\<close>.
\<close>

datatype json =
    JNull
  | JBool bool
  | JNum real
  | JStr string
  | JArr "json list"
  | JObj "(string \<times> json) list"

fun truthy :: "json \<Rightarrow> bool" where
  "truthy JNull = False"
| "truthy (JBool b) = b"
| "truthy (JNum x) = (x \<noteq> 0)"
| "truthy (JStr s) = (s \<noteq> [])"
| "truthy (JArr xs) = (xs \<noteq> [])"
| "truthy (JObj kvs) = (kvs \<noteq> [])"

text \<open>
  What an operation does to the outside world: the frames it sends and the channels it
  closes, in order. A WebSocket is a handle. \<open>_send_json\<close> and the \<open>close\<close> of
  \<open>close_room\<close> swallow every exception, so an effect is an attempt.
\<close>

type_synonym websocket = nat

datatype effect =
    SendJson websocket "(string, json) dict"
  | Close websocket nat string

datatype error =
    HTTPException nat string
  | KeyError string

section \<open>Peers and rooms\<close>

record peer =
  ws :: websocket
  peer_id :: string
  is_host :: bool
  room_code :: string
  ip_address :: string
  connected_at :: real
  messages_sent :: int
  last_message_time :: real

definition Peer :: "real \<Rightarrow> websocket \<Rightarrow> string \<Rightarrow> bool \<Rightarrow> string \<Rightarrow> string \<Rightarrow> peer" where
  "Peer now w pid host rc ip =
     \<lparr>ws = w, peer_id = pid, is_host = host, room_code = rc, ip_address = ip,
      connected_at = now, messages_sent = 0, last_message_time = 0\<rparr>"

record room =
  code :: string
  peers :: "(string, peer) dict"
  created_at :: real
  last_activity :: real
  message_count :: int

definition Room :: "real \<Rightarrow> string \<Rightarrow> room" where
  "Room now c =
     \<lparr>code = c, peers = [], created_at = now, last_activity = now, message_count = 0\<rparr>"

definition is_expired :: "real \<Rightarrow> room \<Rightarrow> bool" where
  "is_expired now r = (now - last_activity r > ROOM_TIMEOUT)"

definition has_host :: "room \<Rightarrow> bool" where
  "has_host r = list_ex (\<lambda>(pid, p). is_host p) (peers r)"

definition peer_count :: "room \<Rightarrow> nat" where
  "peer_count r = length (peers r)"

section \<open>The room manager\<close>

text \<open>
  A \<open>Room\<close> is a mutable object that the registry and the connection handlers share by
  reference: the registry \<open>rooms\<close> maps a code to the address of a room, \<open>heap\<close> gives
  the object at an address, and \<open>next_ref\<close> is the next free address. A \<open>Peer\<close> is
  stored in a room by value: the fields that change after construction
  (\<open>messages_sent\<close>, \<open>last_message_time\<close>) are read and written by
  \<open>check_rate_limit\<close> alone, on the handler's own peer.
\<close>

type_synonym room_ref = nat

record room_manager =
  rooms :: "(string, room_ref) dict"
  heap :: "room_ref \<Rightarrow> room"
  next_ref :: room_ref
  ip_connections :: "(string, int) dict"
  total_messages :: int
  total_connections :: int
  start_time :: real
  latencies :: "real list"

definition RoomManager :: "real \<Rightarrow> room_manager" where
  "RoomManager now =
     \<lparr>rooms = [], heap = (\<lambda>r. Room now []), next_ref = 0, ip_connections = [],
      total_messages = 0, total_connections = 0, start_time = now, latencies = []\<rparr>"

text \<open>
  \<open>ip_connections\<close> is a \<open>defaultdict(int)\<close>: reading a missing key gives 0 and
  inserts the key.
\<close>

definition dd_value :: "(string, int) dict \<Rightarrow> string \<Rightarrow> int" where
  "dd_value d k = (case map_of d k of None \<Rightarrow> 0 | Some v \<Rightarrow> v)"

definition dd_touch :: "(string, int) dict \<Rightarrow> string \<Rightarrow> (string, int) dict" where
  "dd_touch d k = (case map_of d k of None \<Rightarrow> AList.update k 0 d | Some v \<Rightarrow> d)"

text \<open>
  \<open>get_room\<close>: a \<open>Room\<close> object is always true in Python (the class defines neither
  \<open>__bool__\<close> nor \<open>__len__\<close>), so \<open>room and room.is_expired\<close> is \<open>is_expired\<close> of a
  room that was found.
\<close>

definition get_room :: "real \<Rightarrow> room_manager \<Rightarrow> string \<Rightarrow> room_ref option \<times> room_manager" where
  "get_room now m c =
     (case map_of (rooms m) (upper c) of
        None \<Rightarrow> (None, m)
      | Some r \<Rightarrow>
          if is_expired now (heap m r)
          then (None, m\<lparr>rooms := AList.delete (upper c) (rooms m)\<rparr>)
          else (Some r, m))"

definition check_rate_limit :: "real \<Rightarrow> peer \<Rightarrow> bool \<times> peer" where
  "check_rate_limit now p =
     (if now - last_message_time p < 1 / real_of_int MAX_MESSAGES_PER_SECOND
      then (False, p)
      else (True, p\<lparr>last_message_time := now, messages_sent := messages_sent p + 1\<rparr>))"

definition check_ip_limit :: "room_manager \<Rightarrow> string \<Rightarrow> bool \<times> room_manager" where
  "check_ip_limit m ip =
     (dd_value (ip_connections m) ip < MAX_CONNECTIONS_PER_IP,
      m\<lparr>ip_connections := dd_touch (ip_connections m) ip\<rparr>)"

subsection \<open>Room codes\<close>

text \<open>
  \<open>secrets.choice(chars)\<close> picks the character at a random index. The random source is a
  tape of numbers, read from the left; an index is the number modulo the length of the
  sequence. \<open>generate_room_code\<close> draws until it finds a code that is not in the
  registry; \<open>None\<close> says that the loop has not returned within the tape.
\<close>

definition chars :: string where
  "chars = ''ABCDEFGHJKLMNPQRSTUVWXYZ23456789''"

definition choice :: "string \<Rightarrow> nat \<Rightarrow> char" where
  "choice cs n = cs ! (n mod length cs)"

definition draw_code :: "nat list \<Rightarrow> string" where
  "draw_code tape = map (choice chars) (take ROOM_CODE_LENGTH tape)"

function generate_room_code :: "room_manager \<Rightarrow> nat list \<Rightarrow> (string \<times> nat list) option" where
  "generate_room_code m tape =
     (if length tape < ROOM_CODE_LENGTH then None
      else if map_of (rooms m) (draw_code tape) = None
           then Some (draw_code tape, drop ROOM_CODE_LENGTH tape)
           else generate_room_code m (drop ROOM_CODE_LENGTH tape))"
  by pat_completeness auto
termination
  by (relation "measure (\<lambda>(m, tape). length tape)") (auto simp: ROOM_CODE_LENGTH_def)

definition create_room ::
  "real \<Rightarrow> nat list \<Rightarrow> room_manager \<Rightarrow> (error + string \<times> room_manager \<times> nat list) option" where
  "create_room now tape m =
     (if length (rooms m) \<ge> MAX_ROOMS
      then Some (Inl (HTTPException 503 ''Server at capacity''))
      else case generate_room_code m tape of
             None \<Rightarrow> None
           | Some (c, tape') \<Rightarrow>
               Some (Inr (c,
                          m\<lparr>rooms := AList.update c (next_ref m) (rooms m),
                            heap := (heap m)(next_ref m := Room now c),
                            next_ref := Suc (next_ref m)\<rparr>,
                          tape')))"

subsection \<open>Membership\<close>

definition peer_joined :: "peer \<Rightarrow> nat \<Rightarrow> (string, json) dict" where
  "peer_joined p n =
     [(''type'', JStr ''peer-joined''), (''peerId'', JStr (peer_id p)),
      (''isHost'', JBool (is_host p)), (''peerCount'', JNum (real n))]"

definition room_joined :: "room \<Rightarrow> peer \<Rightarrow> (string, json) dict" where
  "room_joined rm p =
     [(''type'', JStr ''room-joined''), (''roomCode'', JStr (code rm)),
      (''peerId'', JStr (peer_id p)), (''isHost'', JBool (is_host p)),
      (''peerCount'', JNum (real (peer_count rm))),
      (''peers'', JArr [JStr pid. (pid, q) \<leftarrow> peers rm, pid \<noteq> peer_id p])]"

definition peer_left :: "string \<Rightarrow> nat \<Rightarrow> (string, json) dict" where
  "peer_left pid n =
     [(''type'', JStr ''peer-left''), (''peerId'', JStr pid), (''peerCount'', JNum (real n))]"

definition add_peer :: "real \<Rightarrow> room_manager \<Rightarrow> room_ref \<Rightarrow> peer \<Rightarrow> room_manager \<times> effect list" where
  "add_peer now m r p =
     (let rm = (heap m r)\<lparr>peers := AList.update (peer_id p) p (peers (heap m r)),
                          last_activity := now\<rparr>
      in (m\<lparr>heap := (heap m)(r := rm),
            total_connections := total_connections m + 1,
            ip_connections :=
              AList.update (ip_address p) (dd_value (ip_connections m) (ip_address p) + 1)
                (ip_connections m)\<rparr>,
          [SendJson (ws q) (peer_joined p (peer_count rm)). (pid, q) \<leftarrow> peers rm, pid \<noteq> peer_id p]
          @ [SendJson (ws p) (room_joined rm p)]))"

definition close_room :: "room_manager \<Rightarrow> string \<Rightarrow> room_manager \<times> effect list" where
  "close_room m c =
     (case map_of (rooms m) (upper c) of
        None \<Rightarrow> (m, [])
      | Some r \<Rightarrow>
          (m\<lparr>rooms := AList.delete (upper c) (rooms m)\<rparr>,
           [Close (ws q) 1000 ''Room closed''. (pid, q) \<leftarrow> peers (heap m r)]))"

definition remove_peer :: "room_manager \<Rightarrow> room_ref \<Rightarrow> string \<Rightarrow> room_manager \<times> effect list" where
  "remove_peer m r pid =
     (case map_of (peers (heap m r)) pid of
        None \<Rightarrow> (m, [])
      | Some p \<Rightarrow>
          let rm = (heap m r)\<lparr>peers := AList.delete pid (peers (heap m r))\<rparr>;
              m1 = m\<lparr>heap := (heap m)(r := rm),
                     ip_connections :=
                       AList.update (ip_address p)
                         (max 0 (dd_value (ip_connections m) (ip_address p) - 1))
                         (ip_connections m)\<rparr>;
              notes = [SendJson (ws q) (peer_left pid (peer_count rm)). (qid, q) \<leftarrow> peers rm]
          in if peer_count rm = 0
             then (case close_room m1 (code rm) of (m2, closes) \<Rightarrow> (m2, notes @ closes))
             else (m1, notes))"

subsection \<open>Message relay\<close>

text \<open>
  The loop of \<open>relay_message\<close> over \<open>room.peers.items()\<close>: the two \<open>continue\<close>
  statements, then the stamp and the send. \<open>pid != target_id\<close> compares a string with
  a JSON value. The message is stamped in place, so every copy sent carries
  \<open>senderId\<close>.
\<close>

fun relay_loop :: "string \<Rightarrow> json \<Rightarrow> (string, json) dict \<Rightarrow> (string, peer) dict \<Rightarrow> effect list" where
  "relay_loop sender_id target_id message [] = []"
| "relay_loop sender_id target_id message ((pid, p) # ps) =
     (if pid = sender_id then relay_loop sender_id target_id message ps
      else if truthy target_id \<and> JStr pid \<noteq> target_id
           then relay_loop sender_id target_id message ps
           else SendJson (ws p) (AList.update ''senderId'' (JStr sender_id) message)
                # relay_loop sender_id target_id (AList.update ''senderId'' (JStr sender_id) message) ps)"

definition dict_get :: "(string, json) dict \<Rightarrow> string \<Rightarrow> json" where
  "dict_get d k = (case map_of d k of None \<Rightarrow> JNull | Some v \<Rightarrow> v)"

text \<open>
  The exception of C4 as it is worded: \<open>targetId\<close> is present and does not equal the
  peer's id.
\<close>

definition excepted_as_stated :: "(string, json) dict \<Rightarrow> string \<Rightarrow> bool" where
  "excepted_as_stated message pid =
     (map_of message ''targetId'' \<noteq> None \<and> map_of message ''targetId'' \<noteq> Some (JStr pid))"

definition track_latency :: "real list \<Rightarrow> real \<Rightarrow> real list" where
  "track_latency ls latency =
     (if length (ls @ [latency]) > 1000
      then drop (length (ls @ [latency]) - 500) (ls @ [latency])
      else ls @ [latency])"

definition relay_message ::
  "real \<Rightarrow> real \<Rightarrow> room_manager \<Rightarrow> room_ref \<Rightarrow> string \<Rightarrow> (string, json) dict \<Rightarrow> room_manager \<times> effect list" where
  "relay_message now latency m r sender_id message =
     (let rm = (heap m r)\<lparr>last_activity := now, message_count := message_count (heap m r) + 1\<rparr>
      in (m\<lparr>heap := (heap m)(r := rm),
            total_messages := total_messages m + 1,
            latencies := track_latency (latencies m) latency\<rparr>,
          relay_loop sender_id (dict_get message ''targetId'') message (peers rm)))"

subsection \<open>The janitor\<close>

text \<open>One pass of \<open>_cleanup_loop\<close> after its sleep.\<close>

definition expired_codes :: "real \<Rightarrow> room_manager \<Rightarrow> string list" where
  "expired_codes now m = [c. (c, r) \<leftarrow> rooms m, is_expired now (heap m r)]"

fun close_rooms :: "room_manager \<Rightarrow> string list \<Rightarrow> room_manager \<times> effect list" where
  "close_rooms m [] = (m, [])"
| "close_rooms m (c # cs) =
     (case close_room m c of
        (m1, e1) \<Rightarrow> (case close_rooms m1 cs of (m2, e2) \<Rightarrow> (m2, e1 @ e2)))"

definition cleanup_pass :: "real \<Rightarrow> room_manager \<Rightarrow> room_manager \<times> effect list" where
  "cleanup_pass now m = close_rooms m (expired_codes now m)"

section \<open>The signalling endpoint\<close>

text \<open>
  \<open>websocket_signaling\<close> up to its receive loop. The handler checks the address limit,
  awaits the accept (other tasks may run there), and then looks the room up, creates it
  for a host, checks the capacity and adds the peer, with nothing awaited on the way to the
  insertion in \<open>add_peer\<close>. \<open>admit\<close> is that second part; \<open>token\<close> is what
  \<open>secrets.token_urlsafe(8)\<close> gives. An \<open>HTTPException\<close> of \<open>create_room\<close> leaves the
  handler.
\<close>

datatype admission =
    Joined room_ref string peer
  | Refused
  | Failed error

definition error_frame :: "string \<Rightarrow> (string, json) dict" where
  "error_frame msg = [(''type'', JStr ''error''), (''message'', JStr msg)]"

definition join_room ::
  "real \<Rightarrow> string \<Rightarrow> room_manager \<Rightarrow> room_ref \<Rightarrow> websocket \<Rightarrow> string \<Rightarrow> string option \<Rightarrow> string \<Rightarrow> string
     \<Rightarrow> admission \<times> room_manager \<times> effect list" where
  "join_room now token m r w rc peer_id_arg is_host_arg client_ip =
     (if peer_count (heap m r) \<ge> MAX_PEERS_PER_ROOM
      then (Refused, m, [SendJson w (error_frame ''Room is full''), Close w 4003 ''Room full''])
      else let pid = (case peer_id_arg of
                        None \<Rightarrow> token
                      | Some s \<Rightarrow> if s = [] then token else s);
               p = Peer now w pid (lower is_host_arg = ''true'') rc client_ip
           in (case add_peer now m r p of (m1, effs) \<Rightarrow> (Joined r pid p, m1, effs)))"

text \<open>
  \<open>rooms[room_code] = rooms.pop(room_code_new)\<close> and
  \<open>rooms[room_code].code = room_code\<close>.
\<close>

definition rename_room :: "room_manager \<Rightarrow> string \<Rightarrow> string \<Rightarrow> error + room_manager" where
  "rename_room m room_code_new rc =
     (case map_of (rooms m) room_code_new of
        None \<Rightarrow> Inl (KeyError room_code_new)
      | Some r \<Rightarrow>
          Inr (m\<lparr>rooms := AList.update rc r (AList.delete room_code_new (rooms m)),
                 heap := (heap m)(r := (heap m r)\<lparr>code := rc\<rparr>)\<rparr>))"

definition admit ::
  "real \<Rightarrow> nat list \<Rightarrow> string \<Rightarrow> room_manager \<Rightarrow> websocket \<Rightarrow> string \<Rightarrow> string option \<Rightarrow> string \<Rightarrow> string
     \<Rightarrow> (admission \<times> room_manager \<times> effect list) option" where
  "admit now tape token m w room_code_arg peer_id_arg is_host_arg client_ip =
     (let rc = upper room_code_arg in
      case get_room now m rc of
        (Some r, m1) \<Rightarrow> Some (join_room now token m1 r w rc peer_id_arg is_host_arg client_ip)
      | (None, m1) \<Rightarrow>
          if lower is_host_arg = ''true''
          then (case create_room now tape m1 of
                  None \<Rightarrow> None
                | Some (Inl e) \<Rightarrow> Some (Failed e, m1, [])
                | Some (Inr (room_code_new, m2, tape')) \<Rightarrow>
                    (case (if map_of (rooms m2) rc = None
                           then rename_room m2 room_code_new rc
                           else Inr m2) of
                       Inl e \<Rightarrow> Some (Failed e, m2, [])
                     | Inr m3 \<Rightarrow>
                         (case map_of (rooms m3) rc of
                            None \<Rightarrow> Some (Failed (KeyError rc), m3, [])
                          | Some r \<Rightarrow>
                              Some (join_room now token m3 r w rc peer_id_arg is_host_arg client_ip))))
          else Some (Refused, m1,
                     [SendJson w (error_frame ''Room not found''), Close w 4004 ''Room not found'']))"

definition websocket_signaling ::
  "real \<Rightarrow> nat list \<Rightarrow> string \<Rightarrow> room_manager \<Rightarrow> websocket \<Rightarrow> string \<Rightarrow> string option \<Rightarrow> string \<Rightarrow> string
     \<Rightarrow> (admission \<times> room_manager \<times> effect list) option" where
  "websocket_signaling now tape token m w room_code_arg peer_id_arg is_host_arg client_ip =
     (case check_ip_limit m client_ip of
        (False, m0) \<Rightarrow> Some (Refused, m0, [Close w 4029 ''Too many connections''])
      | (True, m0) \<Rightarrow> admit now tape token m0 w room_code_arg peer_id_arg is_host_arg client_ip)"

text \<open>
  One turn of the receive loop for a decoded frame: the handler's room \<open>r\<close> and peer
  \<open>p\<close> are those of its admission.
\<close>

definition receive_frame ::
  "real \<Rightarrow> real \<Rightarrow> room_manager \<Rightarrow> room_ref \<Rightarrow> peer \<Rightarrow> (string, json) dict
     \<Rightarrow> room_manager \<times> peer \<times> effect list" where
  "receive_frame now latency m r p message =
     (case check_rate_limit now p of
        (False, p1) \<Rightarrow> (m, p1, [SendJson (ws p) (error_frame ''Rate limited'')])
      | (True, p1) \<Rightarrow>
          (case relay_message now latency m r (peer_id p) message of
             (m1, effs) \<Rightarrow> (m1, p1, effs)))"

text \<open>The \<open>finally\<close> block of the handler; \<open>rc\<close> is the uppercased code.\<close>

definition disconnect :: "real \<Rightarrow> room_manager \<Rightarrow> string \<Rightarrow> string \<Rightarrow> room_manager \<times> effect list" where
  "disconnect now m rc pid =
     (case get_room now m rc of
        (None, m1) \<Rightarrow> (m1, [])
      | (Some r, m1) \<Rightarrow> remove_peer m1 r pid)"

section \<open>Reachable states of the registry\<close>

text \<open>
  The server runs on one event loop, so the registry changes in steps that no other task
  interrupts: a REST create, a REST lookup, the address check of a connection, an
  admission, a relayed message, the \<open>finally\<close> block of a handler, and the closing of
  a room by the janitor. The steps are taken with any arguments in any order, which covers
  every schedule of the handlers (and more).
\<close>

inductive reachable :: "room_manager \<Rightarrow> bool" where
  start: "reachable (RoomManager t)"
| rest_create:
    "reachable m \<Longrightarrow> create_room now tape m = Some (Inr (c, m', tape')) \<Longrightarrow> reachable m'"
| rest_lookup:
    "reachable m \<Longrightarrow> reachable (snd (get_room now m (upper c)))"
| address_check:
    "reachable m \<Longrightarrow> reachable (snd (check_ip_limit m ip))"
| admission:
    "reachable m \<Longrightarrow> admit now tape token m w c pid h ip = Some (a, m', effs) \<Longrightarrow> reachable m'"
| message:
    "reachable m \<Longrightarrow> reachable (fst (relay_message now latency m r sender msg))"
| cleanup:
    "reachable m \<Longrightarrow> reachable (fst (disconnect now m rc pid))"
| janitor:
    "reachable m \<Longrightarrow> reachable (fst (close_room m c))"

text \<open>The invariant of the capacity check, over every room object.\<close>

definition within_capacity :: "room_manager \<Rightarrow> bool" where
  "within_capacity m = (\<forall>r. peer_count (heap m r) \<le> MAX_PEERS_PER_ROOM)"

text \<open>The two sides of the accounting of connections per address.\<close>

definition sum_ip_connections :: "room_manager \<Rightarrow> int" where
  "sum_ip_connections m = sum_list (map snd (ip_connections m))"

definition sum_peer_count :: "room_manager \<Rightarrow> int" where
  "sum_peer_count m = sum_list [int (peer_count (heap m r)). (c, r) \<leftarrow> rooms m]"

definition hosts :: "room \<Rightarrow> nat" where
  "hosts rm = length [p. (pid, p) \<leftarrow> peers rm, is_host p]"

text \<open>
  What C1 states of a room: it is not empty, it is within the capacity, and at most one
  of its peers is a host.
\<close>

definition claimed_room_invariant :: "room \<Rightarrow> bool" where
  "claimed_room_invariant rm =
     (0 < peer_count rm \<and> peer_count rm \<le> MAX_PEERS_PER_ROOM \<and> hosts rm \<le> 1)"

section \<open>The relay store\<close>

text \<open>
  \<open>lz4.frame\<close> and \<open>xxhash\<close> are libraries outside the repository, so their functions
  are parameters of the store: a record of the functions that \<open>store_file\<close> and
  \<open>stream_file\<close> call, over the library's own contexts. \<open>decompress_chunk\<close> gives the
  three values of python-lz4 (the bytes, the count of bytes read and the end-of-frame
  flag), or \<open>None\<close> when the call raises.
\<close>

type_synonym byte = "8 word"

type_synonym bytes = "byte list"

record ('c, 'd) lz4_frame =
  create_compression_context :: 'c
  compress_begin :: "'c \<Rightarrow> nat \<Rightarrow> bytes \<times> 'c"
  compress_chunk :: "'c \<Rightarrow> bytes \<Rightarrow> bytes \<times> 'c"
  compress_flush :: "'c \<Rightarrow> bytes \<times> 'c"
  create_decompression_context :: 'd
  decompress_chunk :: "'d \<Rightarrow> bytes \<Rightarrow> (bytes \<times> nat \<times> bool) option \<times> 'd"

record 'h xxh64 =
  xxh64_new :: 'h
  xxh64_update :: "'h \<Rightarrow> bytes \<Rightarrow> 'h"
  xxh64_hexdigest :: "'h \<Rightarrow> string"

record file_metadata =
  meta_id :: string
  meta_name :: string
  meta_size :: int
  mime_type :: string
  checksum :: "string option"
  compressed :: bool
  original_size :: "int option"
  meta_room_code :: "string option"
  uploaded_at :: real
  expires_at :: "real option"

text \<open>
  An \<open>UploadFile\<close>: its declared fields, and the bytes that its \<open>read\<close> gives in all.
\<close>

record upload =
  filename :: "string option"
  content_type :: "string option"
  file_size :: "int option"
  content :: bytes

text \<open>
  \<open>disk\<close> is the upload directory: the objects in it by file name. \<open>files\<close> is the
  metadata table.
\<close>

record file_relay =
  files :: "(string, file_metadata) dict"
  disk :: "(string, bytes) dict"
  total_bytes_relayed :: int

definition FileRelay :: file_relay where
  "FileRelay = \<lparr>files = [], disk = [], total_bytes_relayed = 0\<rparr>"

text \<open>
  \<open>while chunk := await f.read(n)\<close>: the chunks that the loop sees, up to the first empty
  read.
\<close>

function read_chunks :: "nat \<Rightarrow> bytes \<Rightarrow> bytes list" where
  "read_chunks n data =
     (if n = 0 \<or> data = [] then [] else take n data # read_chunks n (drop n data))"
  by pat_completeness auto
termination
  by (relation "measure (\<lambda>(n, data). length data)") auto

text \<open>
  \<open>Path.suffix\<close> and \<open>Path.with_suffix\<close> on a file name. A file id is what
  \<open>secrets.token_urlsafe(16)\<close> gives: a non-empty string of the URL-safe base64
  alphabet, which \<open>urlsafe\<close> says.
\<close>

definition path_suffix :: "string \<Rightarrow> string" where
  "path_suffix nm =
     (if CHR ''.'' \<in> set nm
      then let i = length nm - length (takeWhile (\<lambda>c. c \<noteq> CHR ''.'') (rev nm)) - 1
           in if 0 < i \<and> i < length nm - 1 then drop i nm else []
      else [])"

definition with_suffix :: "string \<Rightarrow> string \<Rightarrow> string" where
  "with_suffix nm suffix =
     (if path_suffix nm = [] then nm @ suffix
      else take (length nm - length (path_suffix nm)) nm @ suffix)"

definition urlsafe :: "string \<Rightarrow> bool" where
  "urlsafe s =
     (s \<noteq> [] \<and>
      list_all (\<lambda>c. c \<in> set ''ABCDEFGHIJKLMNOPQRSTUVWXYZabcdefghijklmnopqrstuvwxyz0123456789-_'') s)"

text \<open>The two loops of \<open>store_file\<close>: count, hash, and write the chunk.\<close>

fun compress_loop ::
  "('c, 'd) lz4_frame \<Rightarrow> 'h xxh64 \<Rightarrow> bytes list \<Rightarrow> 'c \<Rightarrow> 'h \<Rightarrow> int \<Rightarrow> bytes \<Rightarrow> 'c \<times> 'h \<times> int \<times> bytes" where
  "compress_loop codec xxh [] ctx hasher original written = (ctx, hasher, original, written)"
| "compress_loop codec xxh (chunk # rest) ctx hasher original written =
     (case compress_chunk codec ctx chunk of
        (compressed_chunk, ctx1) \<Rightarrow>
          compress_loop codec xxh rest ctx1 (xxh64_update xxh hasher chunk)
            (original + int (length chunk)) (written @ compressed_chunk))"

fun raw_loop :: "'h xxh64 \<Rightarrow> bytes list \<Rightarrow> 'h \<Rightarrow> int \<Rightarrow> bytes \<Rightarrow> 'h \<times> int \<times> bytes" where
  "raw_loop xxh [] hasher original written = (hasher, original, written)"
| "raw_loop xxh (chunk # rest) hasher original written =
     raw_loop xxh rest (xxh64_update xxh hasher chunk) (original + int (length chunk))
       (written @ chunk)"

definition or_default :: "string option \<Rightarrow> string \<Rightarrow> string" where
  "or_default s d = (case s of None \<Rightarrow> d | Some v \<Rightarrow> if v = [] then d else v)"

definition declared_over :: "int option \<Rightarrow> int \<Rightarrow> bool" where
  "declared_over sz bound = (case sz of None \<Rightarrow> False | Some n \<Rightarrow> n \<noteq> 0 \<and> n > bound)"

definition store_file ::
  "('c, 'd) lz4_frame \<Rightarrow> 'h xxh64 \<Rightarrow> real \<Rightarrow> string \<Rightarrow> file_relay \<Rightarrow> upload \<Rightarrow> string option \<Rightarrow> bool
     \<Rightarrow> file_metadata \<times> file_relay" where
  "store_file codec xxh now file_id fr file rc compress =
     (case (if compress \<and> declared_over (file_size file) MIN_COMPRESS_SIZE
            then (case compress_begin codec (create_compression_context codec) LZ4_COMPRESSION_LEVEL of
                    (header, ctx) \<Rightarrow>
                      (case compress_loop codec xxh (read_chunks CHUNK_SIZE (content file)) ctx
                              (xxh64_new xxh) 0 header of
                         (ctx1, hasher, original, written) \<Rightarrow>
                           (case compress_flush codec ctx1 of
                              (footer, ctx2) \<Rightarrow>
                                (hasher, original, with_suffix file_id ''.lz4'',
                                 written @ footer, True))))
            else (case raw_loop xxh (read_chunks CHUNK_SIZE (content file)) (xxh64_new xxh) 0 [] of
                    (hasher, original, written) \<Rightarrow>
                      (hasher, original, file_id, written, False))) of
        (hasher, original, stored_path, stored, is_compressed) \<Rightarrow>
          (let metadata =
                 \<lparr>meta_id = file_id,
                  meta_name = or_default (filename file) ''unknown'',
                  meta_size = int (length stored),
                  mime_type = or_default (content_type file) ''application/octet-stream'',
                  checksum = Some (xxh64_hexdigest xxh hasher),
                  compressed = is_compressed,
                  original_size = Some original,
                  meta_room_code = rc,
                  uploaded_at = now,
                  expires_at = Some (now + RELAY_FILE_TTL)\<rparr>
           in (metadata,
               fr\<lparr>disk := AList.update stored_path stored (disk fr),
                   total_bytes_relayed := total_bytes_relayed fr + original,
                   files := AList.update file_id metadata (files fr)\<rparr>)))"

text \<open>
  \<open>decompressed, _ = lz4.frame.decompress_chunk(ctx, chunk)\<close>: the assignment has two
  targets, and unpacking a tuple of three values into them raises \<open>ValueError\<close>.
\<close>

definition unpack_two :: "bytes \<times> nat \<times> bool \<Rightarrow> (bytes \<times> nat) option" where
  "unpack_two result = None"

text \<open>
  The iterator of \<open>stream_file\<close>, run to its end: what it yields, in order. The
  \<open>try\<close> block is the call and the unpacking; when either raises, the
  \<open>except\<close> branch yields the chunk as it was read.
\<close>

fun decompress_loop :: "('c, 'd) lz4_frame \<Rightarrow> 'd \<Rightarrow> bytes list \<Rightarrow> bytes list" where
  "decompress_loop codec ctx [] = []"
| "decompress_loop codec ctx (chunk # rest) =
     (case decompress_chunk codec ctx chunk of
        (Some result, ctx1) \<Rightarrow>
          (case unpack_two result of
             Some (decompressed, n) \<Rightarrow>
               (if decompressed \<noteq> [] then decompressed # decompress_loop codec ctx1 rest
                else decompress_loop codec ctx1 rest)
           | None \<Rightarrow> chunk # decompress_loop codec ctx1 rest)
      | (None, ctx1) \<Rightarrow> chunk # decompress_loop codec ctx1 rest)"

definition stream_file ::
  "('c, 'd) lz4_frame \<Rightarrow> file_relay \<Rightarrow> string \<Rightarrow> bool \<Rightarrow> error + bytes list \<times> file_metadata" where
  "stream_file codec fr file_id decompress =
     (case map_of (files fr) file_id of
        None \<Rightarrow> Inl (HTTPException 404 ''File not found'')
      | Some meta \<Rightarrow>
          (case map_of (disk fr) (if compressed meta then file_id @ ''.lz4'' else file_id) of
             None \<Rightarrow> Inl (HTTPException 404 ''File not found on disk'')
           | Some data \<Rightarrow>
               Inr (if compressed meta \<and> decompress
                    then decompress_loop codec (create_decompression_context codec)
                           (read_chunks CHUNK_SIZE data)
                    else read_chunks CHUNK_SIZE data,
                    meta)))"

text \<open>
  \<open>delete_file\<close>. \<open>unlink(missing_ok=True)\<close> removes the object or finds none; when
  the system refuses (\<open>refused\<close>), the exception is swallowed and the object stays.
\<close>

definition delete_file :: "bool \<Rightarrow> file_relay \<Rightarrow> string \<Rightarrow> file_relay" where
  "delete_file refused fr file_id =
     (case map_of (files fr) file_id of
        None \<Rightarrow> fr
      | Some meta \<Rightarrow>
          (if refused then fr\<lparr>files := AList.delete file_id (files fr)\<rparr>
           else fr\<lparr>files := AList.delete file_id (files fr),
                   disk := AList.delete (if compressed meta then file_id @ ''.lz4'' else file_id)
                             (disk fr)\<rparr>))"

subsection \<open>The relay endpoints\<close>

definition json_opt :: "('a \<Rightarrow> json) \<Rightarrow> 'a option \<Rightarrow> json" where
  "json_opt f v = (case v of None \<Rightarrow> JNull | Some x \<Rightarrow> f x)"

definition upload_response :: "file_metadata \<Rightarrow> (string, json) dict" where
  "upload_response metadata =
     [(''fileId'', JStr (meta_id metadata)),
      (''name'', JStr (meta_name metadata)),
      (''size'', json_opt (\<lambda>n. JNum (real_of_int n)) (original_size metadata)),
      (''compressed'', JBool (compressed metadata)),
      (''compressedSize'',
         if compressed metadata then JNum (real_of_int (meta_size metadata)) else JNull),
      (''checksum'', json_opt JStr (checksum metadata)),
      (''expiresAt'', json_opt JNum (expires_at metadata)),
      (''downloadUrl'', JStr (''/api/relay/download/'' @ meta_id metadata))]"

definition upload_file ::
  "('c, 'd) lz4_frame \<Rightarrow> 'h xxh64 \<Rightarrow> real \<Rightarrow> string \<Rightarrow> file_relay \<Rightarrow> upload \<Rightarrow> string option \<Rightarrow> bool
     \<Rightarrow> error + (string, json) dict \<times> file_relay" where
  "upload_file codec xxh now file_id fr file rc compress =
     (if declared_over (file_size file) MAX_FILE_SIZE
      then Inl (HTTPException 413 ''File too large'')
      else (case store_file codec xxh now file_id fr file rc compress of
              (metadata, fr1) \<Rightarrow> Inr (upload_response metadata, fr1)))"

definition delete_relay_file ::
  "bool \<Rightarrow> file_relay \<Rightarrow> string \<Rightarrow> error + (string, json) dict \<times> file_relay" where
  "delete_relay_file refused fr file_id =
     Inr ([(''deleted'', JBool True)], delete_file refused fr file_id)"

subsection \<open>Frames and digests\<close>

text \<open>
  A frame is what the compressor gives for a sequence of chunks: the header, the
  compressed chunks and the footer. Of the hasher the checksum needs that its digest
  depends on the bytes it was fed, not on how they were cut.
\<close>

fun compress_chunks :: "('c, 'd) lz4_frame \<Rightarrow> 'c \<Rightarrow> bytes list \<Rightarrow> bytes \<times> 'c" where
  "compress_chunks codec ctx [] = ([], ctx)"
| "compress_chunks codec ctx (chunk # rest) =
     (case compress_chunk codec ctx chunk of
        (out, ctx1) \<Rightarrow>
          (case compress_chunks codec ctx1 rest of (outs, ctx2) \<Rightarrow> (out @ outs, ctx2)))"

definition lz4_frame_of :: "('c, 'd) lz4_frame \<Rightarrow> bytes list \<Rightarrow> bytes" where
  "lz4_frame_of codec chunks =
     (case compress_begin codec (create_compression_context codec) LZ4_COMPRESSION_LEVEL of
        (header, ctx) \<Rightarrow>
          (case compress_chunks codec ctx chunks of
             (body, ctx1) \<Rightarrow>
               (case compress_flush codec ctx1 of (footer, ctx2) \<Rightarrow> header @ body @ footer)))"

definition xxh64_hex :: "'h xxh64 \<Rightarrow> bytes \<Rightarrow> string" where
  "xxh64_hex xxh data = xxh64_hexdigest xxh (xxh64_update xxh (xxh64_new xxh) data)"

definition xxh64_streaming :: "'h xxh64 \<Rightarrow> bool" where
  "xxh64_streaming xxh =
     (\<forall>chunks. xxh64_hexdigest xxh (fold (\<lambda>chunk h. xxh64_update xxh h chunk) chunks (xxh64_new xxh))
        = xxh64_hex xxh (concat chunks))"

section \<open>Example states\<close>

text \<open>A registry that holds one idle room, created at time 0.\<close>

definition stale_registry :: room_manager where
  "stale_registry = (RoomManager 0)\<lparr>rooms := [(''AB23CD'', 0)]\<rparr>"

text \<open>
  A room with a host and a guest, and messages: one for the host, one for a stranger, one
  for everyone, and one whose \<open>targetId\<close> is the empty string.
\<close>

definition host_peer :: peer where
  "host_peer = Peer 0 1 ''host'' True ''AB23CD'' ''10.0.0.1''"

definition guest_peer :: peer where
  "guest_peer = Peer 1 2 ''guest'' False ''AB23CD'' ''10.0.0.2''"

definition paired_room :: room where
  "paired_room = (Room 0 ''AB23CD'')\<lparr>peers := [(''host'', host_peer), (''guest'', guest_peer)],
                                    last_activity := 1\<rparr>"

definition paired_registry :: room_manager where
  "paired_registry =
     (RoomManager 0)\<lparr>rooms := [(''AB23CD'', 0)], heap := (\<lambda>r. Room 0 [])(0 := paired_room),
                      next_ref := 1,
                      ip_connections := [(''10.0.0.1'', 1), (''10.0.0.2'', 1)],
                      total_connections := 2\<rparr>"

definition offer :: "(string, json) dict" where
  "offer = [(''type'', JStr ''offer''), (''targetId'', JStr ''host''), (''senderId'', JStr ''forged'')]"

definition misdirected :: "(string, json) dict" where
  "misdirected = [(''type'', JStr ''offer''), (''targetId'', JStr ''nobody'')]"

definition broadcast :: "(string, json) dict" where
  "broadcast = [(''type'', JStr ''ready'')]"

definition untargeted :: "(string, json) dict" where
  "untargeted = [(''type'', JStr ''candidate''), (''targetId'', JStr '''')]"

text \<open>
  A registry after one REST create; after a host has joined \<open>AB23CD\<close> at time 0; and
  after a second connection with \<open>is_host=true\<close> has joined it at time 1.
\<close>

definition alice :: peer where
  "alice = Peer 0 1 ''alice'' True ''AB23CD'' ''10.0.0.1''"

definition bob :: peer where
  "bob = Peer 1 2 ''bob'' True ''AB23CD'' ''10.0.0.2''"

definition created :: room_manager where
  "created =
     (RoomManager 0)\<lparr>rooms := [(''AAAAAA'', 0)], heap := (\<lambda>r. Room 0 [])(0 := Room 0 ''AAAAAA''),
                      next_ref := 1\<rparr>"

definition host_alone :: room_manager where
  "host_alone =
     (RoomManager 0)\<lparr>rooms := [(''AB23CD'', 0)],
                      heap := (\<lambda>r. Room 0 [])(0 := (Room 0 ''AB23CD'')\<lparr>peers := [(''alice'', alice)]\<rparr>),
                      next_ref := 1,
                      ip_connections := [(''10.0.0.1'', 1)],
                      total_connections := 1\<rparr>"

definition two_hosts :: room_manager where
  "two_hosts =
     (RoomManager 0)\<lparr>rooms := [(''AB23CD'', 0)],
                      heap := (\<lambda>r. Room 0 [])
                        (0 := (Room 0 ''AB23CD'')\<lparr>peers := [(''alice'', alice), (''bob'', bob)],
                                                 last_activity := 1\<rparr>),
                      next_ref := 1,
                      ip_connections := [(''10.0.0.1'', 1), (''10.0.0.2'', 1)],
                      total_connections := 2\<rparr>"

text \<open>
  A codec and a hasher to run the store with: frames of a magic number and the bytes
  as they are, and a hasher that keeps what it was fed.
\<close>

definition stored_lz4 :: "(unit, nat) lz4_frame" where
  "stored_lz4 =
     \<lparr>create_compression_context = (),
      compress_begin = (\<lambda>ctx level. ([4, 34, 77, 24], ())),
      compress_chunk = (\<lambda>ctx chunk. (chunk, ())),
      compress_flush = (\<lambda>ctx. ([], ())),
      create_decompression_context = 4,
      decompress_chunk =
        (\<lambda>skip piece. (Some (drop skip piece, length piece, False), skip - length piece))\<rparr>"

definition kept_xxh :: "bytes xxh64" where
  "kept_xxh =
     \<lparr>xxh64_new = [],
      xxh64_update = (\<lambda>h chunk. h @ chunk),
      xxh64_hexdigest = (\<lambda>h. replicate (length h) CHR ''f'')\<rparr>"

definition report :: upload where
  "report = \<lparr>filename = Some ''report.txt'', content_type = None, file_size = Some 2000,
             content = replicate 2000 7\<rparr>"

definition undeclared :: upload where
  "undeclared = \<lparr>filename = Some ''blob'', content_type = None, file_size = None,
                 content = replicate 2000 7\<rparr>"

text \<open>
  A file id, what \<open>store_file\<close> gives for the upload \<open>report\<close> into the empty store,
  a store whose metadata names a compressed object that is not on disk, and a store
  that holds a raw object.
\<close>

definition sample_id :: string where
  "sample_id = ''Zm9vYmFyYmF6cXV4MTIzNA''"

definition shelved_report :: "file_metadata \<times> file_relay" where
  "shelved_report = store_file stored_lz4 kept_xxh 0 sample_id FileRelay report None True"

definition orphaned :: file_relay where
  "orphaned =
     \<lparr>files = [(sample_id, \<lparr>meta_id = sample_id, meta_name = ''blob'', meta_size = 3,
                         mime_type = ''application/octet-stream'', checksum = None,
                         compressed = True, original_size = Some 3, meta_room_code = None,
                         uploaded_at = 0, expires_at = Some 3600\<rparr>)],
      disk = [], total_bytes_relayed = 3\<rparr>"

definition shelved :: file_relay where
  "shelved =
     \<lparr>files = [(sample_id, \<lparr>meta_id = sample_id, meta_name = ''blob'', meta_size = 3,
                         mime_type = ''application/octet-stream'', checksum = None,
                         compressed = False, original_size = Some 3, meta_room_code = None,
                         uploaded_at = 0, expires_at = Some 3600\<rparr>)],
      disk = [(sample_id, [1, 2, 3])], total_bytes_relayed = 3\<rparr>"

section \<open>Rate limiting\<close>

text \<open>
  C5. \<open>check_rate_limit\<close> answers true exactly when at least
  \<open>1 / MAX_MESSAGES_PER_SECOND\<close> = 0.01 seconds have passed since the peer's last accepted
  message; it then records the time and counts the message, and otherwise leaves the
  peer as it was.
\<close>

theorem check_rate_limit_spec:
  "(fst (check_rate_limit now p) \<longleftrightarrow>
      now - last_message_time p \<ge> 1 / real_of_int MAX_MESSAGES_PER_SECOND)
   \<and> 1 / real_of_int MAX_MESSAGES_PER_SECOND = 0.01
   \<and> snd (check_rate_limit now p) =
       (if fst (check_rate_limit now p)
        then p\<lparr>last_message_time := now, messages_sent := messages_sent p + 1\<rparr>
        else p)"
  by (simp add: check_rate_limit_def MAX_MESSAGES_PER_SECOND_def not_less)

lemma upper_char_idem: "upper_char (upper_char c) = upper_char c"
  unfolding upper_char_def by (simp split: option.splits if_splits)

lemma upper_idem: "upper (upper s) = upper s"
  by (simp add: upper_def upper_char_idem)

section \<open>Lookup with lazy reaping\<close>

text \<open>
  C6. \<open>get_room\<close> looks under the uppercased code. A missing room is not found; a
  room that is not expired is returned and the registry is left as it was; an expired
  room is deleted from the registry and not found. After the call no expired room is
  stored under the uppercased code.
\<close>

theorem get_room_lazy_reap:
  "(map_of (rooms m) (upper c) = None \<longrightarrow> get_room now m c = (None, m))
   \<and> (\<forall>r. map_of (rooms m) (upper c) = Some r \<and> \<not> is_expired now (heap m r)
          \<longrightarrow> get_room now m c = (Some r, m))
   \<and> (\<forall>r. map_of (rooms m) (upper c) = Some r \<and> is_expired now (heap m r)
          \<longrightarrow> get_room now m c = (None, m\<lparr>rooms := AList.delete (upper c) (rooms m)\<rparr>))
   \<and> (\<forall>r. map_of (rooms (snd (get_room now m c))) (upper c) = Some r
          \<longrightarrow> \<not> is_expired now (heap (snd (get_room now m c)) r))"
  by (auto simp: get_room_def delete_conv split: option.splits)

theorem get_room_lazy_reap_witness:
  "map_of (rooms stale_registry) (upper ''ab23cd'') = Some 0
   \<and> is_expired 4000 (heap stale_registry 0)
   \<and> get_room 4000 stale_registry ''ab23cd'' = (None, stale_registry\<lparr>rooms := []\<rparr>)
   \<and> \<not> is_expired 10 (heap stale_registry 0)
   \<and> get_room 10 stale_registry ''ab23cd'' = (Some 0, stale_registry)"
proof -
  have u: "upper ''ab23cd'' = ''AB23CD''"
    by (simp add: upper_def upper_char_def)
  have found: "map_of (rooms stale_registry) (upper ''ab23cd'') = Some 0"
    by (simp add: u stale_registry_def)
  have old: "is_expired 4000 (heap stale_registry 0)"
    by (simp add: stale_registry_def RoomManager_def Room_def is_expired_def ROOM_TIMEOUT_def)
  have fresh: "\<not> is_expired 10 (heap stale_registry 0)"
    by (simp add: stale_registry_def RoomManager_def Room_def is_expired_def ROOM_TIMEOUT_def)
  have del: "AList.delete (upper ''ab23cd'') (rooms stale_registry) = []"
    by (simp add: u stale_registry_def)
  from get_room_lazy_reap [of stale_registry "''ab23cd''" 4000] found old
  have a: "get_room 4000 stale_registry ''ab23cd'' = (None, stale_registry\<lparr>rooms := []\<rparr>)"
    by (simp add: del)
  from get_room_lazy_reap [of stale_registry "''ab23cd''" 10] found fresh
  have b: "get_room 10 stale_registry ''ab23cd'' = (Some 0, stale_registry)"
    by simp
  from found old a fresh b show ?thesis by simp
qed

section \<open>Room codes are fresh\<close>

declare generate_room_code.simps [simp del]

lemma choice_chars: "choice chars n \<in> set chars"
  by (simp add: choice_def chars_def del: set_simps)

lemma draw_code_chars: "set (draw_code tape) \<subseteq> set chars"
  by (auto simp: draw_code_def choice_chars)

lemma generate_room_code_Some:
  "generate_room_code m tape = Some (c, tape') \<Longrightarrow>
     length c = ROOM_CODE_LENGTH \<and> set c \<subseteq> set chars \<and> map_of (rooms m) c = None"
proof (induction m tape rule: generate_room_code.induct)
  case (1 m tape)
  show ?case
  proof (cases "length tape < ROOM_CODE_LENGTH")
    case True
    with "1.prems" show ?thesis by (simp add: generate_room_code.simps)
  next
    case long: False
    show ?thesis
    proof (cases "map_of (rooms m) (draw_code tape) = None")
      case True
      with long "1.prems" have "c = draw_code tape"
        by (simp add: generate_room_code.simps)
      with True long show ?thesis
        using draw_code_chars by (simp add: draw_code_def)
    next
      case False
      with long "1.prems" have "generate_room_code m (drop ROOM_CODE_LENGTH tape) = Some (c, tape')"
        by (simp add: generate_room_code.simps)
      with "1.IH" long False show ?thesis by simp
    qed
  qed
qed


lemma generate_room_code_returns:
  "ROOM_CODE_LENGTH * Suc k \<le> length tape \<Longrightarrow>
   map_of (rooms m) (draw_code (drop (ROOM_CODE_LENGTH * k) tape)) = None \<Longrightarrow>
   generate_room_code m tape \<noteq> None"
proof (induction k arbitrary: tape)
  case 0
  then show ?case
    by (subst generate_room_code.simps) simp
next
  case (Suc k)
  have long: "\<not> length tape < ROOM_CODE_LENGTH"
    using Suc.prems(1) by (simp add: ROOM_CODE_LENGTH_def)
  have "generate_room_code m (drop ROOM_CODE_LENGTH tape) \<noteq> None"
  proof (rule Suc.IH)
    show "ROOM_CODE_LENGTH * Suc k \<le> length (drop ROOM_CODE_LENGTH tape)"
      using Suc.prems(1) by (simp add: ROOM_CODE_LENGTH_def)
    show "map_of (rooms m) (draw_code (drop (ROOM_CODE_LENGTH * k) (drop ROOM_CODE_LENGTH tape))) = None"
      using Suc.prems(2) by (simp add: add.commute)
  qed
  with long show ?case
    by (subst generate_room_code.simps) simp
qed

lemma create_second:
  "create_room 5 [0, 0, 0, 0, 0, 0, 9, 9, 9, 9, 9, 9] created
   = Some (Inr (''KKKKKK'',
                created\<lparr>rooms := [(''AAAAAA'', 0), (''KKKKKK'', 1)],
                         heap := (heap created)(1 := Room 5 ''KKKKKK''),
                         next_ref := 2\<rparr>,
                []))"
proof -
  have g: "generate_room_code created [0, 0, 0, 0, 0, 0, 9, 9, 9, 9, 9, 9] = Some (''KKKKKK'', [])"
    by (subst generate_room_code.simps, subst generate_room_code.simps)
      (simp add: created_def ROOM_CODE_LENGTH_def draw_code_def choice_def chars_def)
  show ?thesis
    by (simp add: create_room_def g) (simp add: created_def MAX_ROOMS_def)
qed

text \<open>
  C7. A code that \<open>generate_room_code\<close> returns has six characters, all of the
  32-symbol alphabet, and is not a key of the registry at that moment. A code that
  \<open>create_room\<close> returns is such a code, is registered by the call, and differs from
  the code of every room that is in the registry, which the call leaves in place.
\<close>

theorem generate_room_code_spec:
  "(generate_room_code m tape = Some (c, tape') \<longrightarrow>
      length c = 6 \<and> set c \<subseteq> set chars \<and> length chars = 32 \<and> map_of (rooms m) c = None)
   \<and> (create_room now tape m = Some (Inr (c, m', tape')) \<longrightarrow>
        length c = 6 \<and> set c \<subseteq> set chars \<and> map_of (rooms m) c = None
        \<and> map_of (rooms m') c = Some (next_ref m)
        \<and> (\<forall>c1. map_of (rooms m) c1 \<noteq> None \<longrightarrow> c \<noteq> c1 \<and> map_of (rooms m') c1 = map_of (rooms m) c1))"
proof -
  have len: "length chars = 32"
    by (simp add: chars_def)
  have gen: "length c = 6 \<and> set c \<subseteq> set chars \<and> map_of (rooms m) c = None"
    if "generate_room_code m tape = Some (c, tape')" for tape'
    using generate_room_code_Some [OF that] by (simp add: ROOM_CODE_LENGTH_def)
  have cr: "length c = 6 \<and> set c \<subseteq> set chars \<and> map_of (rooms m) c = None
        \<and> map_of (rooms m') c = Some (next_ref m)
        \<and> (\<forall>c1. map_of (rooms m) c1 \<noteq> None \<longrightarrow> c \<noteq> c1 \<and> map_of (rooms m') c1 = map_of (rooms m) c1)"
    if h: "create_room now tape m = Some (Inr (c, m', tape'))"
  proof -
    from h have g: "generate_room_code m tape = Some (c, tape')"
      and m': "rooms m' = AList.update c (next_ref m) (rooms m)"
      by (auto simp: create_room_def split: if_splits option.splits)
    from gen [OF g] m' show ?thesis
      by (auto simp: update_conv')
  qed
  from len gen cr show ?thesis by blast
qed

theorem generate_room_code_spec_witness:
  "generate_room_code (RoomManager 0) [0, 1, 2, 3, 24, 31] = Some (''ABCD29'', [])
   \<and> length ''ABCD29'' = 6 \<and> set ''ABCD29'' \<subseteq> set chars
   \<and> map_of (rooms (RoomManager 0)) ''ABCD29'' = None
   \<and> map_of (rooms created) ''AAAAAA'' = Some 0
   \<and> create_room 5 [0, 0, 0, 0, 0, 0, 9, 9, 9, 9, 9, 9] created
       = Some (Inr (''KKKKKK'',
                    created\<lparr>rooms := [(''AAAAAA'', 0), (''KKKKKK'', 1)],
                             heap := (heap created)(1 := Room 5 ''KKKKKK''),
                             next_ref := 2\<rparr>,
                    []))
   \<and> ''KKKKKK'' \<noteq> ''AAAAAA'' \<and> map_of (rooms created) ''KKKKKK'' = None"
proof -
  have a: "generate_room_code (RoomManager 0) [0, 1, 2, 3, 24, 31] = Some (''ABCD29'', [])"
    by (subst generate_room_code.simps)
      (simp add: RoomManager_def ROOM_CODE_LENGTH_def draw_code_def choice_def chars_def)
  have b: "map_of (rooms created) ''AAAAAA'' = Some 0"
    by (simp add: created_def)
  from generate_room_code_spec [of "RoomManager 0" "[0, 1, 2, 3, 24, 31]" "''ABCD29''" "[]"] a
  have c: "length ''ABCD29'' = 6 \<and> set ''ABCD29'' \<subseteq> set chars
      \<and> map_of (rooms (RoomManager 0)) ''ABCD29'' = None"
    by simp
  from generate_room_code_spec [of created "[0, 0, 0, 0, 0, 0, 9, 9, 9, 9, 9, 9]" "''KKKKKK''" "[]" 5
      "created\<lparr>rooms := [(''AAAAAA'', 0), (''KKKKKK'', 1)],
               heap := (heap created)(1 := Room 5 ''KKKKKK''), next_ref := 2\<rparr>"]
    create_second b
  have d: "''KKKKKK'' \<noteq> ''AAAAAA'' \<and> map_of (rooms created) ''KKKKKK'' = None"
    by simp
  from a b c d create_second show ?thesis by simp
qed

section \<open>Message relay\<close>

lemma update_twice: "AList.update k v (AList.update k v al) = AList.update k v al"
  by (induction al) auto

lemma relay_loop_stamped:
  "relay_loop s t (AList.update ''senderId'' (JStr s) msg) ps
   = [SendJson (ws p) (AList.update ''senderId'' (JStr s) msg).
        (pid, p) \<leftarrow> ps, pid \<noteq> s, \<not> (truthy t \<and> JStr pid \<noteq> t)]"
  by (induction ps) (auto simp: update_twice)

lemma relay_loop_eq:
  "relay_loop s t msg ps
   = [SendJson (ws p) (AList.update ''senderId'' (JStr s) msg).
        (pid, p) \<leftarrow> ps, pid \<noteq> s, \<not> (truthy t \<and> JStr pid \<noteq> t)]"
  by (induction ps) (auto simp: relay_loop_stamped)

lemma relay_message_effects:
  "snd (relay_message now latency m r s msg)
   = [SendJson (ws p) (AList.update ''senderId'' (JStr s) msg).
        (pid, p) \<leftarrow> peers (heap m r), pid \<noteq> s,
        \<not> (truthy (dict_get msg ''targetId'') \<and> JStr pid \<noteq> dict_get msg ''targetId'')]"
  by (simp add: relay_message_def Let_def relay_loop_eq)

lemma relay_message_snd:
  "snd (relay_message now latency m r s msg)
   = relay_loop s (dict_get msg ''targetId'') msg (peers (heap m r))"
  by (simp add: relay_message_def Let_def)

text \<open>
  C4, as the code has it. \<open>relay_message\<close> with sender \<open>sender_id\<close> on the room at
  \<open>r\<close> sends exactly this, in the order of the room's peers: one copy of the message,
  with \<open>senderId\<close> set to the sender's id, to every peer stored under another id, except
  the peers for which the value of \<open>targetId\<close> is true in Python's sense and differs from
  their id. Nothing goes to the sender and nothing else is sent. The stamp overwrites a
  \<open>senderId\<close> of the client and leaves the other fields.
\<close>

theorem relay_message_delivery:
  "snd (relay_message now latency m r sender_id message)
     = [SendJson (ws p) (AList.update ''senderId'' (JStr sender_id) message).
          (pid, p) \<leftarrow> peers (heap m r), pid \<noteq> sender_id,
          \<not> (truthy (dict_get message ''targetId'') \<and> JStr pid \<noteq> dict_get message ''targetId'')]
   \<and> map_of (AList.update ''senderId'' (JStr sender_id) message) ''senderId'' = Some (JStr sender_id)
   \<and> (\<forall>k. k \<noteq> ''senderId'' \<longrightarrow>
         map_of (AList.update ''senderId'' (JStr sender_id) message) k = map_of message k)"
  by (simp add: relay_message_effects update_conv')

theorem relay_message_delivery_witness:
  "snd (relay_message 5 1 paired_registry 0 ''guest'' offer)
     = [SendJson 1 [(''type'', JStr ''offer''), (''targetId'', JStr ''host''), (''senderId'', JStr ''guest'')]]
   \<and> snd (relay_message 5 1 paired_registry 0 ''guest'' misdirected) = []
   \<and> snd (relay_message 5 1 paired_registry 0 ''host'' broadcast)
       = [SendJson 2 [(''type'', JStr ''ready''), (''senderId'', JStr ''host'')]]
   \<and> ''type'' \<noteq> ''senderId''
   \<and> map_of (AList.update ''senderId'' (JStr ''guest'') offer) ''type'' = map_of offer ''type''"
proof -
  have ps: "peers (heap paired_registry 0) = [(''host'', host_peer), (''guest'', guest_peer)]"
    by (simp add: paired_registry_def paired_room_def)
  have w: "ws host_peer = 1" "ws guest_peer = 2"
    by (simp_all add: host_peer_def guest_peer_def Peer_def)
  have t: "dict_get offer ''targetId'' = JStr ''host''"
    "dict_get misdirected ''targetId'' = JStr ''nobody''"
    "dict_get broadcast ''targetId'' = JNull"
    by (simp_all add: dict_get_def offer_def misdirected_def broadcast_def)
  have stamp: "AList.update ''senderId'' (JStr ''guest'') offer
      = [(''type'', JStr ''offer''), (''targetId'', JStr ''host''), (''senderId'', JStr ''guest'')]"
    "AList.update ''senderId'' (JStr ''host'') broadcast
      = [(''type'', JStr ''ready''), (''senderId'', JStr ''host'')]"
    by (simp_all add: offer_def broadcast_def)
  have n: "''type'' \<noteq> ''senderId''"
    by simp
  note d = relay_message_delivery [of 5 1 paired_registry 0 "''guest''" offer]
  from d [THEN conjunct1]
  have a: "snd (relay_message 5 1 paired_registry 0 ''guest'' offer)
     = [SendJson 1 [(''type'', JStr ''offer''), (''targetId'', JStr ''host''), (''senderId'', JStr ''guest'')]]"
    by (simp add: ps w t stamp)
  have k: "map_of (AList.update ''senderId'' (JStr ''guest'') offer) ''type'' = map_of offer ''type''"
    by (rule d [THEN conjunct2, THEN conjunct2, rule_format, OF n])
  from relay_message_delivery [of 5 1 paired_registry 0 "''guest''" misdirected]
  have b: "snd (relay_message 5 1 paired_registry 0 ''guest'' misdirected) = []"
    by (simp add: ps t)
  from relay_message_delivery [of 5 1 paired_registry 0 "''host''" broadcast]
  have c: "snd (relay_message 5 1 paired_registry 0 ''host'' broadcast)
       = [SendJson 2 [(''type'', JStr ''ready''), (''senderId'', JStr ''host'')]]"
    by (simp add: ps w t stamp)
  from a b c n k show ?thesis by simp
qed

text \<open>
  C4 as stated excepts a peer whenever \<open>targetId\<close> is present and differs from the
  peer's id. The guest's message with \<open>targetId\<close> the empty string is such a message
  for the host, and the host is sent it.
\<close>

theorem relay_message_presence_counterexample:
  "(''host'', host_peer) \<in> set (peers (heap paired_registry 0))
   \<and> ''host'' \<noteq> ''guest''
   \<and> excepted_as_stated untargeted ''host''
   \<and> SendJson (ws host_peer) (AList.update ''senderId'' (JStr ''guest'') untargeted)
        \<in> set (snd (relay_message 5 1 paired_registry 0 ''guest'' untargeted))"
proof -
  have "dict_get untargeted ''targetId'' = JStr []"
    by (simp add: dict_get_def untargeted_def)
  then have "snd (relay_message 5 1 paired_registry 0 ''guest'' untargeted)
      = [SendJson (ws host_peer) (AList.update ''senderId'' (JStr ''guest'') untargeted)]"
    by (simp add: relay_message_effects paired_registry_def paired_room_def)
  moreover have "excepted_as_stated untargeted ''host''"
    by (simp add: excepted_as_stated_def untargeted_def)
  moreover have "(''host'', host_peer) \<in> set (peers (heap paired_registry 0))"
    by (simp add: paired_registry_def paired_room_def)
  ultimately show ?thesis by simp
qed

lemma relay_loop_falsy:
  "\<not> truthy t \<Longrightarrow>
     relay_loop s t msg ps
     = [SendJson (ws p) (AList.update ''senderId'' (JStr s) msg). (pid, p) \<leftarrow> ps, pid \<noteq> s]"
  unfolding relay_loop_eq by (induction ps) auto

text \<open>
  C9. When \<open>targetId\<close> is present with a value that Python takes for false (the empty
  string, null, 0, false), \<open>relay_message\<close> sends the stamped message to every peer
  stored under an id other than the sender's: the truth value of \<open>targetId\<close> decides,
  not its presence.
\<close>

theorem relay_message_falsy_target:
  "(map_of message ''targetId'' = Some v \<and> \<not> truthy v \<longrightarrow>
      snd (relay_message now latency m r sender_id message)
      = [SendJson (ws p) (AList.update ''senderId'' (JStr sender_id) message).
           (pid, p) \<leftarrow> peers (heap m r), pid \<noteq> sender_id])
   \<and> \<not> truthy (JStr '''') \<and> \<not> truthy JNull \<and> \<not> truthy (JNum 0) \<and> \<not> truthy (JBool False)"
proof -
  have "dict_get message ''targetId'' = v" if "map_of message ''targetId'' = Some v"
    using that by (simp add: dict_get_def)
  then show ?thesis
    by (auto simp: relay_message_snd relay_loop_falsy)
qed

theorem relay_message_falsy_target_witness:
  "map_of untargeted ''targetId'' = Some (JStr '''') \<and> \<not> truthy (JStr '''')
   \<and> snd (relay_message 5 1 paired_registry 0 ''guest'' untargeted)
       = [SendJson 1 [(''type'', JStr ''candidate''), (''targetId'', JStr ''''), (''senderId'', JStr ''guest'')]]"
proof -
  have tgt: "map_of untargeted ''targetId'' = Some (JStr '''')"
    by (simp add: untargeted_def)
  have stamp: "AList.update ''senderId'' (JStr ''guest'') untargeted
      = [(''type'', JStr ''candidate''), (''targetId'', JStr ''''), (''senderId'', JStr ''guest'')]"
    by (simp add: untargeted_def)
  have w: "ws host_peer = 1"
    by (simp add: host_peer_def Peer_def)
  from relay_message_falsy_target [of untargeted "JStr ''''" 5 1 paired_registry 0 "''guest''"] tgt
  have "snd (relay_message 5 1 paired_registry 0 ''guest'' untargeted)
      = [SendJson (ws p) (AList.update ''senderId'' (JStr ''guest'') untargeted).
           (pid, p) \<leftarrow> peers (heap paired_registry 0), pid \<noteq> ''guest'']"
    by simp
  then have "snd (relay_message 5 1 paired_registry 0 ''guest'' untargeted)
       = [SendJson 1 [(''type'', JStr ''candidate''), (''targetId'', JStr ''''), (''senderId'', JStr ''guest'')]]"
    by (simp add: stamp w paired_registry_def paired_room_def)
  with tgt show ?thesis by simp
qed

section \<open>Capacity of rooms\<close>

lemma heap_get_room: "heap (snd (get_room now m c)) = heap m"
  by (simp add: get_room_def split: option.splits)

lemma heap_check_ip_limit: "heap (snd (check_ip_limit m ip)) = heap m"
  by (simp add: check_ip_limit_def)

lemma heap_close_room: "heap (fst (close_room m c)) = heap m"
  by (simp add: close_room_def split: option.splits)

lemma length_delete_le: "length (AList.delete k al) \<le> length al"
  by (simp add: AList.delete_eq)

lemma length_update_le: "length (AList.update k v al) \<le> Suc (length al)"
  by (induction al) auto

lemma capacity_get_room: "within_capacity m \<Longrightarrow> within_capacity (snd (get_room now m c))"
  by (simp add: within_capacity_def heap_get_room)

lemma capacity_close_room: "within_capacity m \<Longrightarrow> within_capacity (fst (close_room m c))"
  by (simp add: within_capacity_def heap_close_room)

lemma capacity_create_room:
  "within_capacity m \<Longrightarrow> create_room now tape m = Some (Inr (c, m', tape')) \<Longrightarrow> within_capacity m'"
  by (auto simp: within_capacity_def create_room_def peer_count_def Room_def
      split: if_splits option.splits)

lemma capacity_rename_room:
  "within_capacity m \<Longrightarrow> rename_room m old new = Inr m' \<Longrightarrow> within_capacity m'"
  by (auto simp: within_capacity_def rename_room_def peer_count_def split: option.splits)

lemma capacity_add_peer:
  "within_capacity m \<Longrightarrow> peer_count (heap m r) < MAX_PEERS_PER_ROOM \<Longrightarrow>
     within_capacity (fst (add_peer now m r p))"
  using length_update_le [of "peer_id p" p "peers (heap m r)"]
  by (auto simp: within_capacity_def add_peer_def Let_def peer_count_def)

lemma capacity_join_room:
  "within_capacity m \<Longrightarrow> join_room now token m r w rc pid h ip = (a, m', effs) \<Longrightarrow>
     within_capacity m'"
proof (cases "peer_count (heap m r) \<ge> MAX_PEERS_PER_ROOM")
  case True
  assume "within_capacity m" "join_room now token m r w rc pid h ip = (a, m', effs)"
  with True show ?thesis by (simp add: join_room_def)
next
  case False
  assume cap: "within_capacity m" and j: "join_room now token m r w rc pid h ip = (a, m', effs)"
  define p where "p = Peer now w (case pid of None \<Rightarrow> token | Some s \<Rightarrow> if s = [] then token else s)
      (lower h = ''true'') rc ip"
  from False j have "m' = fst (add_peer now m r p)"
    by (cases "add_peer now m r p") (simp add: join_room_def Let_def p_def)
  with cap False show ?thesis by (simp add: capacity_add_peer)
qed

lemma capacity_admit:
  assumes cap: "within_capacity m"
    and adm: "admit now tape token m w c pid h ip = Some (a, m', effs)"
  shows "within_capacity m'"
proof -
  let ?rc = "upper c"
  obtain ro m1 where g: "get_room now m ?rc = (ro, m1)"
    by (cases "get_room now m ?rc")
  then have m1: "m1 = snd (get_room now m ?rc)" by simp
  have cap1: "within_capacity m1"
    unfolding m1 using cap by (rule capacity_get_room)
  show ?thesis
  proof (cases ro)
    case (Some r)
    with adm g have "join_room now token m1 r w ?rc pid h ip = (a, m', effs)"
      by (simp add: admit_def Let_def)
    with cap1 show ?thesis by (rule capacity_join_room)
  next
    case None
    show ?thesis
    proof (cases "lower h = ''true''")
      case False
      with adm g None have "m' = m1" by (simp add: admit_def Let_def)
      with cap1 show ?thesis by simp
    next
      case True
      show ?thesis
      proof (cases "create_room now tape m1")
        case none: None
        with adm g None True show ?thesis by (simp add: admit_def Let_def)
      next
        case (Some res)
        show ?thesis
        proof (cases res)
          case (Inl e)
          with adm g None True Some have "m' = m1" by (simp add: admit_def Let_def)
          with cap1 show ?thesis by simp
        next
          case (Inr x)
          obtain cn m2 tape' where x: "x = (cn, m2, tape')" by (cases x)
          with Some Inr have cr: "create_room now tape m1 = Some (Inr (cn, m2, tape'))" by simp
          have cap2: "within_capacity m2"
            using cap1 cr by (rule capacity_create_room)
          let ?ren = "if map_of (rooms m2) ?rc = None then rename_room m2 cn ?rc else Inr m2"
          show ?thesis
          proof (cases ?ren)
            case bad: (Inl e)
            with adm g None True cr have "m' = m2" by (simp add: admit_def Let_def)
            with cap2 show ?thesis by simp
          next
            case ok: (Inr m3)
            have cap3: "within_capacity m3"
              using ok cap2 capacity_rename_room [of m2 cn ?rc m3]
              by (auto split: if_splits)
            show ?thesis
            proof (cases "map_of (rooms m3) ?rc")
              case none3: None
              with adm g None True cr ok have "m' = m3" by (simp add: admit_def Let_def)
              with cap3 show ?thesis by simp
            next
              case (Some r)
              with adm g None True cr ok
              have "join_room now token m3 r w ?rc pid h ip = (a, m', effs)"
                by (simp add: admit_def Let_def)
              with cap3 show ?thesis by (rule capacity_join_room)
            qed
          qed
        qed
      qed
    qed
  qed
qed

lemma capacity_relay_message:
  "within_capacity m \<Longrightarrow> within_capacity (fst (relay_message now latency m r s msg))"
  by (simp add: within_capacity_def relay_message_def Let_def peer_count_def)

lemma capacity_remove_peer:
  "within_capacity m \<Longrightarrow> within_capacity (fst (remove_peer m r pid))"
proof -
  assume cap: "within_capacity m"
  show ?thesis
  proof (cases "map_of (peers (heap m r)) pid")
    case None
    with cap show ?thesis by (simp add: remove_peer_def)
  next
    case (Some p)
    let ?rm = "(heap m r)\<lparr>peers := AList.delete pid (peers (heap m r))\<rparr>"
    let ?m1 = "m\<lparr>heap := (heap m)(r := ?rm),
                   ip_connections :=
                     AList.update (ip_address p)
                       (max 0 (dd_value (ip_connections m) (ip_address p) - 1))
                       (ip_connections m)\<rparr>"
    have cap1: "within_capacity ?m1"
      using cap length_delete_le [of pid "peers (heap m r)"]
      by (auto simp: within_capacity_def peer_count_def intro: order_trans)
    have "fst (remove_peer m r pid)
        = (if peer_count ?rm = 0 then fst (close_room ?m1 (code ?rm)) else ?m1)"
      by (simp add: remove_peer_def Some Let_def split: prod.splits)
    with cap1 show ?thesis by (simp add: capacity_close_room)
  qed
qed

lemma capacity_disconnect:
  "within_capacity m \<Longrightarrow> within_capacity (fst (disconnect now m rc pid))"
proof -
  assume cap: "within_capacity m"
  obtain ro m1 where g: "get_room now m rc = (ro, m1)"
    by (cases "get_room now m rc")
  then have "m1 = snd (get_room now m rc)" by simp
  with cap have cap1: "within_capacity m1" by (simp add: capacity_get_room)
  from g cap1 show ?thesis
    by (cases ro) (simp_all add: disconnect_def capacity_remove_peer)
qed

lemma reachable_within_capacity: "reachable m \<Longrightarrow> within_capacity m"
proof (induction rule: reachable.induct)
  case (start t)
  show ?case by (simp add: within_capacity_def RoomManager_def Room_def peer_count_def)
next
  case (rest_create m now tape c m' tape')
  then show ?case by (auto intro: capacity_create_room)
next
  case (rest_lookup m now c)
  then show ?case by (simp add: capacity_get_room)
next
  case (address_check m ip)
  then show ?case by (simp add: within_capacity_def heap_check_ip_limit)
next
  case (admission m now tape token w c pid h ip a m' effs)
  then show ?case by (auto intro: capacity_admit)
next
  case (message m now latency r sender msg)
  then show ?case by (simp add: capacity_relay_message)
next
  case (cleanup m now rc pid)
  then show ?case by (simp add: capacity_disconnect)
next
  case (janitor m c)
  then show ?case by (simp add: capacity_close_room)
qed

lemma upper_ab23cd: "upper ''ab23cd'' = ''AB23CD''" "upper ''AB23CD'' = ''AB23CD''"
  by (simp_all add: upper_def upper_char_def)

lemma lower_true: "lower ''true'' = ''true''"
  by (simp add: lower_def lower_char_def)

lemma generate_first: "generate_room_code (RoomManager 0) [0, 0, 0, 0, 0, 0] = Some (''AAAAAA'', [])"
  by (subst generate_room_code.simps)
    (simp add: RoomManager_def ROOM_CODE_LENGTH_def draw_code_def choice_def chars_def)

lemma create_first: "create_room 0 [0, 0, 0, 0, 0, 0] (RoomManager 0) = Some (Inr (''AAAAAA'', created, []))"
  by (simp add: create_room_def generate_first created_def)
    (simp add: RoomManager_def MAX_ROOMS_def)

lemma check_first:
  "check_ip_limit (RoomManager 0) ''10.0.0.1'' = (True, (RoomManager 0)\<lparr>ip_connections := [(''10.0.0.1'', 0)]\<rparr>)"
  by (simp add: check_ip_limit_def RoomManager_def dd_value_def dd_touch_def MAX_CONNECTIONS_PER_IP_def)


lemma generate_empty:
  "rooms m = [] \<Longrightarrow> generate_room_code m [0, 0, 0, 0, 0, 0] = Some (''AAAAAA'', [])"
  by (subst generate_room_code.simps)
    (simp add: ROOM_CODE_LENGTH_def draw_code_def choice_def chars_def)

lemma admit_alice:
  "\<exists>a e. admit 0 [0, 0, 0, 0, 0, 0] ''tok'' ((RoomManager 0)\<lparr>ip_connections := [(''10.0.0.1'', 0)]\<rparr>)
      1 ''ab23cd'' (Some ''alice'') ''true'' ''10.0.0.1'' = Some (a, host_alone, e)"
  by (simp add: admit_def upper_ab23cd lower_true get_room_def create_room_def generate_empty
      rename_room_def join_room_def add_peer_def Let_def dd_value_def
      RoomManager_def Room_def MAX_ROOMS_def MAX_PEERS_PER_ROOM_def peer_count_def
      host_alone_def alice_def Peer_def)

lemma admit_bob:
  "\<exists>a e. admit 1 [] ''tok'' (host_alone\<lparr>ip_connections := [(''10.0.0.1'', 1), (''10.0.0.2'', 0)]\<rparr>)
      2 ''AB23CD'' (Some ''bob'') ''true'' ''10.0.0.2'' = Some (a, two_hosts, e)"
  by (simp add: admit_def upper_ab23cd lower_true get_room_def
      join_room_def add_peer_def Let_def dd_value_def is_expired_def ROOM_TIMEOUT_def
      RoomManager_def Room_def MAX_PEERS_PER_ROOM_def peer_count_def
      host_alone_def two_hosts_def alice_def bob_def Peer_def)


lemma reachable_signaling:
  assumes "reachable m"
    and "websocket_signaling now tape token m w c pid h ip = Some (a, m', effs)"
  shows "reachable m'"
proof (cases "fst (check_ip_limit m ip)")
  case False
  with assms(2) have "m' = snd (check_ip_limit m ip)"
    by (cases "check_ip_limit m ip") (simp add: websocket_signaling_def)
  with assms(1) show ?thesis by (simp add: reachable.address_check)
next
  case True
  with assms(2) have "admit now tape token (snd (check_ip_limit m ip)) w c pid h ip = Some (a, m', effs)"
    by (cases "check_ip_limit m ip") (simp add: websocket_signaling_def)
  with reachable.address_check [OF assms(1)] show ?thesis
    by (rule reachable.admission)
qed

lemma signaling_alice:
  "\<exists>a e. websocket_signaling 0 [0, 0, 0, 0, 0, 0] ''tok'' (RoomManager 0)
      1 ''ab23cd'' (Some ''alice'') ''true'' ''10.0.0.1'' = Some (a, host_alone, e)"
  using admit_alice by (simp add: websocket_signaling_def check_first)

lemma check_second:
  "check_ip_limit host_alone ''10.0.0.2''
   = (True, host_alone\<lparr>ip_connections := [(''10.0.0.1'', 1), (''10.0.0.2'', 0)]\<rparr>)"
  by (simp add: check_ip_limit_def host_alone_def RoomManager_def dd_value_def dd_touch_def
      MAX_CONNECTIONS_PER_IP_def)

lemma signaling_bob:
  "\<exists>a e. websocket_signaling 1 [] ''tok'' host_alone
      2 ''AB23CD'' (Some ''bob'') ''true'' ''10.0.0.2'' = Some (a, two_hosts, e)"
  using admit_bob by (simp add: websocket_signaling_def check_second)

lemma reachable_created: "reachable created"
  using reachable.rest_create [OF reachable.start create_first] .

lemma reachable_host_alone: "reachable host_alone"
  using signaling_alice reachable_signaling [OF reachable.start] by blast

lemma reachable_two_hosts: "reachable two_hosts"
  using signaling_bob reachable_signaling [OF reachable_host_alone] by blast

text \<open>
  C1, as the code has it. In every reachable state every room of the registry holds at
  most \<open>MAX_PEERS_PER_ROOM\<close> = 2 peers: the capacity check and the insertion of
  \<open>add_peer\<close> are one step.
\<close>

theorem rooms_within_capacity:
  "reachable m \<Longrightarrow> (c, r) \<in> set (rooms m) \<Longrightarrow>
     peer_count (heap m r) \<le> MAX_PEERS_PER_ROOM \<and> MAX_PEERS_PER_ROOM = 2"
  using reachable_within_capacity [of m]
  by (simp add: within_capacity_def MAX_PEERS_PER_ROOM_def)

theorem rooms_within_capacity_witness:
  "reachable two_hosts \<and> (''AB23CD'', 0) \<in> set (rooms two_hosts)
   \<and> peer_count (heap two_hosts 0) = 2 \<and> peer_count (heap two_hosts 0) \<le> MAX_PEERS_PER_ROOM"
proof -
  have mem: "(''AB23CD'', 0) \<in> set (rooms two_hosts)"
    by (simp add: two_hosts_def)
  have two: "peer_count (heap two_hosts 0) = 2"
    by (simp add: two_hosts_def peer_count_def)
  from rooms_within_capacity [OF reachable_two_hosts mem] mem two reachable_two_hosts
  show ?thesis by simp
qed

text \<open>
  C1 as stated fails twice. Two connections that both ask for \<open>is_host=true\<close> are
  both admitted as hosts (admission never reads \<open>has_host\<close>), and a room that
  \<open>create_room\<close> has just registered is empty.
\<close>

theorem claimed_room_invariant_counterexample:
  "reachable two_hosts \<and> map_of (rooms two_hosts) ''AB23CD'' = Some 0
   \<and> hosts (heap two_hosts 0) = 2 \<and> \<not> claimed_room_invariant (heap two_hosts 0)
   \<and> reachable created \<and> map_of (rooms created) ''AAAAAA'' = Some 0
   \<and> peer_count (heap created 0) = 0 \<and> \<not> claimed_room_invariant (heap created 0)"
proof -
  have h: "hosts (heap two_hosts 0) = 2"
    by (simp add: two_hosts_def hosts_def alice_def bob_def Peer_def)
  have e: "peer_count (heap created 0) = 0"
    by (simp add: created_def peer_count_def Room_def)
  have "map_of (rooms two_hosts) ''AB23CD'' = Some 0" "map_of (rooms created) ''AAAAAA'' = Some 0"
    by (simp_all add: two_hosts_def created_def)
  with h e reachable_two_hosts reachable_created show ?thesis
    by (simp add: claimed_room_invariant_def)
qed

section \<open>Connections per address\<close>

text \<open>
  C2. A host joins from one address and stays idle; both sides of the accounting are 1.
  The janitor closes the expired room: \<open>close_room\<close> takes the room out of the
  registry and closes the socket, and the address count stays. The handler's
  \<open>finally\<close> block then finds no room, so \<open>remove_peer\<close>, the one place that
  decrements, is not reached: the counts sum to 1 for no peer at all.
\<close>

theorem janitor_leaks_address_count:
  "sum_ip_connections host_alone = 1 \<and> sum_peer_count host_alone = 1
   \<and> is_expired 4000 (heap host_alone 0)
   \<and> cleanup_pass 4000 host_alone = (host_alone\<lparr>rooms := []\<rparr>, [Close 1 1000 ''Room closed''])
   \<and> disconnect 4001 (host_alone\<lparr>rooms := []\<rparr>) ''AB23CD'' ''alice'' = (host_alone\<lparr>rooms := []\<rparr>, [])
   \<and> sum_ip_connections (host_alone\<lparr>rooms := []\<rparr>) = 1
   \<and> sum_peer_count (host_alone\<lparr>rooms := []\<rparr>) = 0"
proof -
  have a: "sum_ip_connections host_alone = 1" "sum_ip_connections (host_alone\<lparr>rooms := []\<rparr>) = 1"
    by (simp_all add: sum_ip_connections_def host_alone_def)
  have b: "sum_peer_count host_alone = 1" "sum_peer_count (host_alone\<lparr>rooms := []\<rparr>) = 0"
    by (simp_all add: sum_peer_count_def host_alone_def peer_count_def)
  have c: "is_expired 4000 (heap host_alone 0)"
    by (simp add: host_alone_def is_expired_def Room_def ROOM_TIMEOUT_def)
  have d: "cleanup_pass 4000 host_alone = (host_alone\<lparr>rooms := []\<rparr>, [Close 1 1000 ''Room closed''])"
  proof -
    have rs: "rooms host_alone = [(''AB23CD'', 0)]"
      by (simp add: host_alone_def)
    have ps: "peers (heap host_alone 0) = [(''alice'', alice)]"
      by (simp add: host_alone_def)
    have x: "expired_codes 4000 host_alone = [''AB23CD'']"
      using c by (simp add: expired_codes_def rs)
    have y: "close_room host_alone ''AB23CD''
        = (host_alone\<lparr>rooms := []\<rparr>, [Close 1 1000 ''Room closed''])"
      by (simp add: close_room_def upper_ab23cd rs ps alice_def Peer_def)
    show ?thesis
      by (simp add: cleanup_pass_def x y)
  qed
  have e: "disconnect 4001 (host_alone\<lparr>rooms := []\<rparr>) ''AB23CD'' ''alice'' = (host_alone\<lparr>rooms := []\<rparr>, [])"
    by (simp add: disconnect_def get_room_def)
  from a b c d e show ?thesis by simp
qed

section \<open>Round trip, upload and delete in the relay store\<close>

declare read_chunks.simps [simp del]

lemma concat_read_chunks: "0 < n \<Longrightarrow> concat (read_chunks n data) = data"
proof (induction n data rule: read_chunks.induct)
  case (1 n data)
  then show ?case
    by (subst read_chunks.simps) auto
qed

lemma compress_loop_eq:
  "compress_loop codec xxh chunks ctx h orig w
   = (snd (compress_chunks codec ctx chunks),
      fold (\<lambda>chunk h. xxh64_update xxh h chunk) chunks h,
      orig + int (length (concat chunks)),
      w @ fst (compress_chunks codec ctx chunks))"
  by (induction chunks arbitrary: ctx h orig w) (auto split: prod.splits)

lemma raw_loop_eq:
  "raw_loop xxh chunks h orig w
   = (fold (\<lambda>chunk h. xxh64_update xxh h chunk) chunks h,
      orig + int (length (concat chunks)),
      w @ concat chunks)"
  by (induction chunks arbitrary: h orig w) auto

lemma urlsafe_no_dot: "urlsafe s \<Longrightarrow> CHR ''.'' \<notin> set s"
proof
  assume u: "urlsafe s" and d: "CHR ''.'' \<in> set s"
  from u have "\<forall>c \<in> set s. c \<in> set ''ABCDEFGHIJKLMNOPQRSTUVWXYZabcdefghijklmnopqrstuvwxyz0123456789-_''"
    unfolding urlsafe_def list_all_iff by (rule conjunct2)
  with d have "CHR ''.'' \<in> set ''ABCDEFGHIJKLMNOPQRSTUVWXYZabcdefghijklmnopqrstuvwxyz0123456789-_''"
    by blast
  then show False by simp
qed

lemma with_suffix_urlsafe: "urlsafe s \<Longrightarrow> with_suffix s suffix = s @ suffix"
  by (simp add: with_suffix_def path_suffix_def urlsafe_no_dot)

lemma CHUNK_SIZE_pos: "0 < CHUNK_SIZE"
  by (simp add: CHUNK_SIZE_def)


lemma store_file_compressed:
  assumes "compress" and "declared_over (file_size file) MIN_COMPRESS_SIZE"
  shows "store_file codec xxh now file_id fr file rc compress
   = (let chunks = read_chunks CHUNK_SIZE (content file);
          stored = lz4_frame_of codec chunks;
          metadata =
            \<lparr>meta_id = file_id,
             meta_name = or_default (filename file) ''unknown'',
             meta_size = int (length stored),
             mime_type = or_default (content_type file) ''application/octet-stream'',
             checksum = Some (xxh64_hexdigest xxh
                          (fold (\<lambda>chunk h. xxh64_update xxh h chunk) chunks (xxh64_new xxh))),
             compressed = True,
             original_size = Some (int (length (content file))),
             meta_room_code = rc,
             uploaded_at = now,
             expires_at = Some (now + RELAY_FILE_TTL)\<rparr>
      in (metadata,
          fr\<lparr>disk := AList.update (with_suffix file_id ''.lz4'') stored (disk fr),
              total_bytes_relayed := total_bytes_relayed fr + int (length (content file)),
              files := AList.update file_id metadata (files fr)\<rparr>))"
  using assms
  by (simp add: store_file_def compress_loop_eq lz4_frame_of_def Let_def
      concat_read_chunks [OF CHUNK_SIZE_pos] split: prod.splits)

lemma store_file_raw:
  assumes "\<not> (compress \<and> declared_over (file_size file) MIN_COMPRESS_SIZE)"
  shows "store_file codec xxh now file_id fr file rc compress
   = (let chunks = read_chunks CHUNK_SIZE (content file);
          metadata =
            \<lparr>meta_id = file_id,
             meta_name = or_default (filename file) ''unknown'',
             meta_size = int (length (content file)),
             mime_type = or_default (content_type file) ''application/octet-stream'',
             checksum = Some (xxh64_hexdigest xxh
                          (fold (\<lambda>chunk h. xxh64_update xxh h chunk) chunks (xxh64_new xxh))),
             compressed = False,
             original_size = Some (int (length (content file))),
             meta_room_code = rc,
             uploaded_at = now,
             expires_at = Some (now + RELAY_FILE_TTL)\<rparr>
      in (metadata,
          fr\<lparr>disk := AList.update file_id (content file) (disk fr),
              total_bytes_relayed := total_bytes_relayed fr + int (length (content file)),
              files := AList.update file_id metadata (files fr)\<rparr>))"
  using assms
  by (simp add: store_file_def raw_loop_eq Let_def
      concat_read_chunks [OF CHUNK_SIZE_pos] split: prod.splits)


lemma store_file_path:
  "compressed (fst (store_file codec xxh now file_id fr file rc compress))
   \<longleftrightarrow> compress \<and> declared_over (file_size file) MIN_COMPRESS_SIZE"
proof (cases "compress \<and> declared_over (file_size file) MIN_COMPRESS_SIZE")
  case True
  then show ?thesis by (simp add: store_file_compressed Let_def)
next
  case False
  then show ?thesis by (simp add: store_file_raw Let_def)
qed

lemma stored_compress: "compress_chunks stored_lz4 ctx chunks = (concat chunks, ())"
  by (induction chunks arbitrary: ctx) (simp_all add: stored_lz4_def)

lemma stored_frame: "lz4_frame_of stored_lz4 chunks = [4, 34, 77, 24] @ concat chunks"
  by (simp add: lz4_frame_of_def stored_compress) (simp add: stored_lz4_def)

lemma kept_fold: "fold (\<lambda>chunk h. xxh64_update kept_xxh h chunk) chunks h = h @ concat chunks"
  by (induction chunks arbitrary: h) (simp_all add: kept_xxh_def)

lemma kept_streaming: "xxh64_streaming kept_xxh"
  by (simp add: xxh64_streaming_def kept_fold xxh64_hex_def) (simp add: kept_xxh_def)

lemma urlsafe_sample_id: "urlsafe sample_id"
  by (simp add: urlsafe_def sample_id_def)

lemma decompress_loop_raw: "decompress_loop codec ctx chunks = chunks"
  by (induction chunks arbitrary: ctx) (auto simp: unpack_two_def split: prod.splits option.splits)

lemma read_chunks_one:
  assumes "data \<noteq> []" and "length data \<le> n"
  shows "read_chunks n data = [data]"
proof -
  from assms have "0 < n"
    by (cases data) auto
  with assms show ?thesis
    by (subst read_chunks.simps, subst read_chunks.simps) auto
qed

lemma store_file_checksum:
  assumes "xxh64_streaming xxh"
  shows "checksum (fst (store_file codec xxh now file_id fr file rc compress))
    = Some (xxh64_hex xxh (content file))"
proof (cases "compress \<and> declared_over (file_size file) MIN_COMPRESS_SIZE")
  case True
  with assms show ?thesis
    by (simp add: store_file_compressed Let_def xxh64_streaming_def
        concat_read_chunks [OF CHUNK_SIZE_pos])
next
  case False
  with assms show ?thesis
    by (simp add: store_file_raw Let_def xxh64_streaming_def
        concat_read_chunks [OF CHUNK_SIZE_pos])
qed

lemma stream_file_compressed:
  assumes fid: "urlsafe file_id"
    and st: "store_file codec xxh now file_id fr file rc compress = (metadata, fr1)"
    and cm: "compressed metadata"
  shows "stream_file codec fr1 (meta_id metadata) True
    = Inr (read_chunks CHUNK_SIZE (lz4_frame_of codec (read_chunks CHUNK_SIZE (content file))),
           metadata)"
proof -
  let ?chunks = "read_chunks CHUNK_SIZE (content file)"
  let ?stored = "lz4_frame_of codec ?chunks"
  from st cm have "compress \<and> declared_over (file_size file) MIN_COMPRESS_SIZE"
    using store_file_path [of codec xxh now file_id fr "file" rc compress] by simp
  then have c: "compress" and d: "declared_over (file_size file) MIN_COMPRESS_SIZE"
    by simp_all
  have eq: "(metadata, fr1) =
     (\<lparr>meta_id = file_id,
       meta_name = or_default (filename file) ''unknown'',
       meta_size = int (length ?stored),
       mime_type = or_default (content_type file) ''application/octet-stream'',
       checksum = Some (xxh64_hexdigest xxh
                    (fold (\<lambda>chunk h. xxh64_update xxh h chunk) ?chunks (xxh64_new xxh))),
       compressed = True,
       original_size = Some (int (length (content file))),
       meta_room_code = rc,
       uploaded_at = now,
       expires_at = Some (now + RELAY_FILE_TTL)\<rparr>,
      fr\<lparr>disk := AList.update (with_suffix file_id ''.lz4'') ?stored (disk fr),
          total_bytes_relayed := total_bytes_relayed fr + int (length (content file)),
          files := AList.update file_id metadata (files fr)\<rparr>)"
    using store_file_compressed [OF c d, of codec xxh now file_id fr rc] st
    by (simp add: Let_def)
  from eq have mid: "meta_id metadata = file_id"
    by auto
  from eq have tab: "map_of (files fr1) file_id = Some metadata"
    by (auto simp: update_conv')
  from eq have obj: "map_of (disk fr1) (file_id @ ''.lz4'') = Some ?stored"
    by (auto simp: update_conv' with_suffix_urlsafe [OF fid])
  show ?thesis
    by (simp add: stream_file_def mid tab cm obj decompress_loop_raw)
qed

text \<open>
  C3. An upload of 2000 bytes with the declared size 2000 and \<open>compress = True\<close> is
  stored compressed, as a frame of 2004 bytes here. \<open>stream_file\<close> with
  \<open>decompress = True\<close> yields that frame and not the 2000 bytes of the upload: the
  unpacking of the decompressor's result raises for every chunk, and the \<open>except\<close>
  branch yields the chunk as read. The recorded checksum is the digest of the upload.
\<close>

theorem compressed_download_yields_frame:
  "compressed (fst shelved_report)
   \<and> stream_file stored_lz4 (snd shelved_report) sample_id True
       = Inr ([[4, 34, 77, 24] @ replicate 2000 7], fst shelved_report)
   \<and> content report = replicate 2000 7
   \<and> length ([4, 34, 77, 24] @ replicate 2000 (7 :: byte)) = 2004
   \<and> [4, 34, 77, 24] @ replicate 2000 7 \<noteq> content report
   \<and> checksum (fst shelved_report) = Some (xxh64_hex kept_xxh (content report))"
proof -
  have d: "declared_over (file_size report) MIN_COMPRESS_SIZE"
    by (simp add: declared_over_def report_def MIN_COMPRESS_SIZE_def)
  have cm: "compressed (fst shelved_report)"
    unfolding shelved_report_def by (simp add: store_file_compressed [OF TrueI d] Let_def)
  have mid: "meta_id (fst shelved_report) = sample_id"
    unfolding shelved_report_def by (simp add: store_file_compressed [OF TrueI d] Let_def)
  have ct: "content report = replicate 2000 7"
    by (simp add: report_def)
  have up: "read_chunks CHUNK_SIZE (content report) = [replicate 2000 7]"
    unfolding ct by (rule read_chunks_one) (simp_all add: CHUNK_SIZE_def)
  have fr: "lz4_frame_of stored_lz4 [replicate 2000 7] = [4, 34, 77, 24] @ replicate 2000 7"
    by (simp add: stored_frame)
  have down: "read_chunks CHUNK_SIZE ([4, 34, 77, 24] @ replicate 2000 7)
      = [[4, 34, 77, 24] @ replicate 2000 (7 :: byte)]"
    by (rule read_chunks_one) (simp_all add: CHUNK_SIZE_def)
  have pair: "store_file stored_lz4 kept_xxh 0 sample_id FileRelay report None True
      = (fst shelved_report, snd shelved_report)"
    by (simp add: shelved_report_def)
  have str: "stream_file stored_lz4 (snd shelved_report) sample_id True
       = Inr ([[4, 34, 77, 24] @ replicate 2000 7], fst shelved_report)"
    using stream_file_compressed [OF urlsafe_sample_id pair cm, unfolded mid up fr down]
    by simp
  have len: "length ([4, 34, 77, 24] @ replicate 2000 (7 :: byte)) = 2004"
    by simp
  have ne: "[4, 34, 77, 24] @ replicate 2000 7 \<noteq> content report"
  proof
    assume "[4, 34, 77, 24] @ replicate 2000 7 = content report"
    then have "length ([4, 34, 77, 24] @ replicate 2000 (7 :: byte)) = length (content report)"
      by simp
    then show False by (simp add: ct)
  qed
  have sum: "checksum (fst shelved_report) = Some (xxh64_hex kept_xxh (content report))"
    unfolding shelved_report_def by (rule store_file_checksum [OF kept_streaming])
  from cm str ct len ne sum show ?thesis by simp
qed

text \<open>
  C10. When the declared size of an upload is absent or 0, \<open>upload_file\<close> does not
  reject it, whatever its content and however long, and \<open>store_file\<close> stores it raw
  under the file id, also with \<open>compress = True\<close>.
\<close>

theorem undeclared_size_upload:
  assumes "file_size file = None \<or> file_size file = Some 0"
  shows "\<not> declared_over (file_size file) MAX_FILE_SIZE
    \<and> (\<exists>metadata fr1.
          upload_file codec xxh now file_id fr file rc compress = Inr (upload_response metadata, fr1)
          \<and> store_file codec xxh now file_id fr file rc compress = (metadata, fr1)
          \<and> \<not> compressed metadata
          \<and> map_of (files fr1) file_id = Some metadata
          \<and> map_of (disk fr1) file_id = Some (content file)
          \<and> original_size metadata = Some (int (length (content file))))"
proof -
  from assms have no: "\<not> declared_over (file_size file) bound" for bound
    by (auto simp: declared_over_def)
  then have raw: "\<not> (compress \<and> declared_over (file_size file) MIN_COMPRESS_SIZE)"
    by simp
  obtain metadata fr1 where st: "store_file codec xxh now file_id fr file rc compress = (metadata, fr1)"
    by (cases "store_file codec xxh now file_id fr file rc compress")
  from store_file_raw [OF raw, of codec xxh now file_id fr rc] st
  have "\<not> compressed metadata" "map_of (files fr1) file_id = Some metadata"
    "map_of (disk fr1) file_id = Some (content file)"
    "original_size metadata = Some (int (length (content file)))"
    by (auto simp: Let_def update_conv')
  moreover have "upload_file codec xxh now file_id fr file rc compress = Inr (upload_response metadata, fr1)"
    by (simp add: upload_file_def no st)
  ultimately show ?thesis using no st by blast
qed

theorem undeclared_size_upload_witness:
  "file_size undeclared = None
   \<and> \<not> declared_over (file_size undeclared) MAX_FILE_SIZE
   \<and> (\<exists>metadata fr1.
         upload_file stored_lz4 kept_xxh 0 sample_id FileRelay undeclared None True
           = Inr (upload_response metadata, fr1)
         \<and> \<not> compressed metadata
         \<and> map_of (disk fr1) sample_id = Some (replicate 2000 7))"
proof -
  have n: "file_size undeclared = None"
    by (simp add: undeclared_def)
  have c: "content undeclared = replicate 2000 7"
    by (simp add: undeclared_def)
  from undeclared_size_upload [of undeclared stored_lz4 kept_xxh 0 sample_id FileRelay None True] n
  show ?thesis
    by (auto simp: c)
qed

text \<open>
  C8. The delete endpoint answers \<open>deleted\<close> and raises nothing, whether or not the
  id is known. After \<open>delete_file\<close> the id has no metadata, and a second
  \<open>delete_file\<close> changes nothing. When the id had metadata and the unlink is not
  refused, the object that the metadata names (the \<open>.lz4\<close> file for a compressed one,
  the raw file otherwise) is not on disk afterwards, whether or not it was there before.
\<close>

theorem delete_file_idempotent:
  "delete_relay_file refused fr file_id
     = Inr ([(''deleted'', JBool True)], delete_file refused fr file_id)
   \<and> map_of (files (delete_file refused fr file_id)) file_id = None
   \<and> delete_file again (delete_file refused fr file_id) file_id = delete_file refused fr file_id
   \<and> (\<forall>metadata. map_of (files fr) file_id = Some metadata \<and> \<not> refused \<longrightarrow>
         map_of (disk (delete_file refused fr file_id))
           (if compressed metadata then file_id @ ''.lz4'' else file_id) = None)"
proof -
  have gone: "map_of (files (delete_file refused fr file_id)) file_id = None"
    by (simp add: delete_file_def delete_conv' split: option.splits)
  have "delete_file again (delete_file refused fr file_id) file_id = delete_file refused fr file_id"
    using gone by (simp add: delete_file_def [of again])
  with gone show ?thesis
    by (auto simp: delete_relay_file_def delete_file_def delete_conv')
qed

theorem delete_file_idempotent_witness:
  "map_of (files shelved) sample_id \<noteq> None
   \<and> delete_file False shelved sample_id = \<lparr>files = [], disk = [], total_bytes_relayed = 3\<rparr>
   \<and> delete_file False (delete_file False shelved sample_id) sample_id = delete_file False shelved sample_id
   \<and> map_of (files orphaned) sample_id \<noteq> None \<and> map_of (disk orphaned) (sample_id @ ''.lz4'') = None
   \<and> delete_file False orphaned sample_id = \<lparr>files = [], disk = [], total_bytes_relayed = 3\<rparr>
   \<and> map_of (disk (delete_file False shelved sample_id)) sample_id = None"
proof -
  have a: "delete_file False shelved sample_id = \<lparr>files = [], disk = [], total_bytes_relayed = 3\<rparr>"
    by (simp add: delete_file_def shelved_def)
  have b: "delete_file False orphaned sample_id = \<lparr>files = [], disk = [], total_bytes_relayed = 3\<rparr>"
    by (simp add: delete_file_def orphaned_def)
  have c: "map_of (files shelved) sample_id \<noteq> None" "map_of (files orphaned) sample_id \<noteq> None"
    "map_of (disk orphaned) (sample_id @ ''.lz4'') = None"
    by (simp_all add: shelved_def orphaned_def)
  have m: "map_of (files shelved) sample_id = Some (snd (hd (files shelved)))"
    "\<not> compressed (snd (hd (files shelved)))"
    by (simp_all add: shelved_def)
  from delete_file_idempotent [of False shelved sample_id False] m
  have "delete_file False (delete_file False shelved sample_id) sample_id = delete_file False shelved sample_id"
    "map_of (disk (delete_file False shelved sample_id)) sample_id = None"
    by auto
  with a b c show ?thesis by simp
qed

end
